theory Spec2Isabelle
  imports Main "HOL-Library.Word"
begin

unbundle bit_operations_syntax

section \<open>Data model of the QEMU driver's per-domain state\<close>

text \<open>
  The embedding follows \<^verbatim>\<open>src/qemu/qemu_driver.c\<close>. A domain object
  (\<^verbatim>\<open>virDomainObj\<close> together with its \<^verbatim>\<open>qemuDomainObjPrivate\<close>) is a record;
  enumerations are datatypes; \<^verbatim>\<open>unsigned long long\<close> counters are 64-bit words.
\<close>

datatype virDomainState =
    VIR_DOMAIN_NOSTATE | VIR_DOMAIN_RUNNING | VIR_DOMAIN_BLOCKED | VIR_DOMAIN_PAUSED
  | VIR_DOMAIN_SHUTDOWN | VIR_DOMAIN_SHUTOFF | VIR_DOMAIN_CRASHED | VIR_DOMAIN_PMSUSPENDED

text \<open>The state-specific reason code. In C it is an int read together with the state;
  here each reason the driver names is a constructor.\<close>

datatype virDomainStateReason =
    VIR_DOMAIN_REASON_UNKNOWN
  | VIR_DOMAIN_PAUSED_USER | VIR_DOMAIN_PAUSED_MIGRATION | VIR_DOMAIN_PAUSED_SAVE
  | VIR_DOMAIN_PAUSED_DUMP | VIR_DOMAIN_PAUSED_IOERROR | VIR_DOMAIN_PAUSED_WATCHDOG
  | VIR_DOMAIN_PAUSED_FROM_SNAPSHOT | VIR_DOMAIN_PAUSED_SNAPSHOT
  | VIR_DOMAIN_RUNNING_BOOTED | VIR_DOMAIN_RUNNING_UNPAUSED | VIR_DOMAIN_RUNNING_SAVE_CANCELED
  | VIR_DOMAIN_SHUTOFF_DESTROYED | VIR_DOMAIN_SHUTOFF_SAVED

datatype qemuDomainJob =
    QEMU_JOB_NONE | QEMU_JOB_QUERY | QEMU_JOB_DESTROY | QEMU_JOB_SUSPEND | QEMU_JOB_MODIFY
  | QEMU_JOB_ABORT | QEMU_JOB_MIGRATION_OP

datatype qemuDomainAsyncJob =
    QEMU_ASYNC_JOB_NONE | QEMU_ASYNC_JOB_MIGRATION_OUT | QEMU_ASYNC_JOB_MIGRATION_IN
  | QEMU_ASYNC_JOB_SAVE | QEMU_ASYNC_JOB_DUMP | QEMU_ASYNC_JOB_SNAPSHOT

datatype virDomainJobType =
    VIR_DOMAIN_JOB_NONE | VIR_DOMAIN_JOB_BOUNDED | VIR_DOMAIN_JOB_UNBOUNDED
  | VIR_DOMAIN_JOB_COMPLETED | VIR_DOMAIN_JOB_FAILED | VIR_DOMAIN_JOB_CANCELLED

type_synonym ullong = "64 word"

record virDomainJobInfo =
  info_type :: virDomainJobType
  timeElapsed :: ullong
  timeRemaining :: ullong
  dataTotal :: ullong
  dataProcessed :: ullong
  dataRemaining :: ullong
  memTotal :: ullong
  memProcessed :: ullong
  memRemaining :: ullong
  fileTotal :: ullong
  fileProcessed :: ullong
  fileRemaining :: ullong

record qemuMonitorMigrationStatus =
  downtime_set :: bool
  downtime :: ullong
  ram_duplicate_set :: bool
  ram_duplicate :: ullong
  ram_normal :: ullong
  ram_normal_bytes :: ullong
  xbzrle_set :: bool
  xbzrle_cache_size :: ullong
  xbzrle_bytes :: ullong
  xbzrle_pages :: ullong
  xbzrle_cache_miss :: ullong
  xbzrle_overflow :: ullong

text \<open>\<^verbatim>\<open>priv->job\<close>: the job controller embedded in every domain object.\<close>

record qemuDomainJobObj =
  job_active :: qemuDomainJob
  job_asyncJob :: qemuDomainAsyncJob
  job_asyncAbort :: bool
  job_start :: ullong
  job_dump_memory_only :: bool
  job_info :: virDomainJobInfo
  job_status :: qemuMonitorMigrationStatus

datatype virDomainLifecycleAction =
    VIR_DOMAIN_LIFECYCLE_DESTROY | VIR_DOMAIN_LIFECYCLE_RESTART
  | VIR_DOMAIN_LIFECYCLE_RESTART_RENAME | VIR_DOMAIN_LIFECYCLE_PRESERVE

text \<open>The fields of \<^verbatim>\<open>virDomainObj\<close>, of its definition and of its private data that
  the modelled entry points read or write. \<^verbatim>\<open>priv_agent\<close> is whether
  \<^verbatim>\<open>priv->agent\<close> is non-NULL.\<close>

record virDomainObj =
  def_id :: int
  def_onPoweroff :: virDomainLifecycleAction
  persistent :: bool
  hasManagedSave :: bool
  vm_state :: virDomainState
  vm_reason :: virDomainStateReason
  priv_job :: qemuDomainJobObj
  priv_beingDestroyed :: bool
  priv_fakeReboot :: bool
  priv_agent :: bool

datatype virErrorNumber =
    VIR_ERR_OPERATION_INVALID | VIR_ERR_OPERATION_FAILED | VIR_ERR_INTERNAL_ERROR
  | VIR_ERR_OPERATION_TIMEOUT | VIR_ERR_ACCESS_DENIED | VIR_ERR_NO_DOMAIN
  | VIR_ERR_AGENT_UNRESPONSIVE | VIR_ERR_ARGUMENT_UNSUPPORTED | VIR_ERR_SYSTEM_ERROR
  | VIR_ERR_NO_MEMORY | VIR_ERR_INVALID_ARG

type_synonym virError = "virErrorNumber \<times> string"

datatype virDomainEventType =
    VIR_DOMAIN_EVENT_SUSPENDED | VIR_DOMAIN_EVENT_RESUMED | VIR_DOMAIN_EVENT_STOPPED

text \<open>A lifecycle event: its type and its detail code.\<close>

type_synonym virObjectEvent = "virDomainEventType \<times> int"

text \<open>Detail codes of the public header, which is not part of the source file. The
  driver only passes them on and tests \<^verbatim>\<open>eventDetail >= 0\<close>.\<close>

definition VIR_DOMAIN_EVENT_SUSPENDED_PAUSED :: int where
  "VIR_DOMAIN_EVENT_SUSPENDED_PAUSED = 0"
definition VIR_DOMAIN_EVENT_SUSPENDED_MIGRATED :: int where
  "VIR_DOMAIN_EVENT_SUSPENDED_MIGRATED = 1"
definition VIR_DOMAIN_EVENT_SUSPENDED_API_ERROR :: int where
  "VIR_DOMAIN_EVENT_SUSPENDED_API_ERROR = 6"
definition VIR_DOMAIN_EVENT_RESUMED_UNPAUSED :: int where
  "VIR_DOMAIN_EVENT_RESUMED_UNPAUSED = 0"
definition VIR_DOMAIN_EVENT_STOPPED_DESTROYED :: int where
  "VIR_DOMAIN_EVENT_STOPPED_DESTROYED = 1"
definition VIR_DOMAIN_EVENT_STOPPED_SAVED :: int where
  "VIR_DOMAIN_EVENT_STOPPED_SAVED = 4"

section \<open>Calls, traces and the environment\<close>

text \<open>
  Every call an entry point makes that is visible to other threads, to the hypervisor
  or to the caller is recorded, in program order, in a trace. A boolean argument is the
  call's outcome (\<open>True\<close> for success) unless said otherwise.
\<close>

datatype action =
    VirDomainObjListFindByUUID bool
  | VirObjectUnlock
  | EnsureACL bool
  | QemuDomainObjBeginJob qemuDomainJob bool
  | QemuDomainObjEndJob bool
  | QemuDomainObjBeginAsyncJob qemuDomainAsyncJob bool
  | QemuDomainObjEndAsyncJob bool
  | QemuProcessStopCPUs virDomainStateReason qemuDomainAsyncJob bool
  | QemuProcessStartCPUs virDomainStateReason qemuDomainAsyncJob bool
  | QemuProcessKill bool bool
  | QemuProcessStop virDomainStateReason
  | QemuDomainRemoveInactive
  | QemuDomainSetFakeReboot bool
  | SetBeingDestroyed bool
  | VirDomainSaveStatus bool
  | QemuDomainEventQueue virObjectEvent
  | QemuDomainObjEnterAgent
  | QemuAgentShutdown bool int
  | QemuDomainObjExitAgent
  | QemuDomainObjEnterMonitor
  | QemuMonitorSystemPowerdown int
  | QemuMonitorMigrateCancel int
  | QemuDomainObjExitMonitor
  | QemuDomainObjAbortAsyncJob
  | QemuDomainSaveMemory bool int
  | VirDomainAuditStop
  | VirReportError virErrorNumber string

text \<open>The functions of other files that can fail and leave their own error.\<close>

datatype callee =
    C_ACL | C_BeginJob | C_BeginAsyncJob | C_StopCPUs | C_StartCPUs | C_Kill
  | C_SaveStatus | C_GetCapabilities | C_AgentAvailable | C_AgentShutdown
  | C_SystemPowerdown | C_MigrateCancel | C_TimeMillisNow | C_TypedParamsAdd
  | C_MigrationIsAllowed | C_DefParse | C_CheckABI | C_SaveMemory

text \<open>
  The environment fixes what the functions outside the file answer. A function that
  releases the object lock while it waits or talks to the hypervisor (job acquisition,
  a monitor or agent round-trip, killing the process) also returns the domain object as
  the thread finds it when it holds the lock again: other threads may have changed it.
\<close>

record env =
  envLookup :: bool
  envACL :: bool
  envBeginJob :: "qemuDomainJob \<Rightarrow> virDomainObj \<Rightarrow> bool \<times> virDomainObj"
  envEndJob :: "virDomainObj \<Rightarrow> bool"
  envBeginAsyncJob :: "qemuDomainAsyncJob \<Rightarrow> virDomainObj \<Rightarrow> bool \<times> virDomainObj"
  envEndAsyncJob :: "virDomainObj \<Rightarrow> bool"
  envStopCPUs :: "virDomainObj \<Rightarrow> bool \<times> virDomainObj"
  envStartCPUs :: "virDomainObj \<Rightarrow> bool \<times> virDomainObj"
  envProcessKill :: "bool \<Rightarrow> virDomainObj \<Rightarrow> bool \<times> virDomainObj"
  envSaveStatus :: bool
  envCaps :: bool
  envEventNew :: bool
  envAgentAvailable :: bool
  envAgentShutdown :: "virDomainObj \<Rightarrow> int \<times> virDomainObj"
  envSystemPowerdown :: "virDomainObj \<Rightarrow> int \<times> virDomainObj"
  envMigrateCancel :: "virDomainObj \<Rightarrow> int \<times> virDomainObj"
  envTimeMillisNow :: "ullong option"
  envTypedParamsAdd :: "nat \<Rightarrow> bool"
  envMigrationIsAllowed :: bool
  envDefParse :: bool
  envCheckABI :: bool
  envFormatLive :: bool
  envSaveMemory :: "virDomainObj \<Rightarrow> int \<times> virDomainObj"
  envSaveImageFormat :: "int option"
  envFindFileInPath :: bool
  envCalleeError :: "callee \<Rightarrow> virError option"

text \<open>What one call of an entry point has done so far: the domain object, the trace of
  calls, and the thread's last error.\<close>

record world =
  vm :: virDomainObj
  trace :: "action list"
  lastError :: "virError option"

definition emit :: "action \<Rightarrow> world \<Rightarrow> world" where
  "emit a w = w\<lparr>trace := trace w @ [a]\<rparr>"

definition virReportError :: "virErrorNumber \<Rightarrow> string \<Rightarrow> world \<Rightarrow> world" where
  "virReportError code msg w =
     w\<lparr>trace := trace w @ [VirReportError code msg], lastError := Some (code, msg)\<rparr>"

text \<open>A failing function of another file reports its own error, or none.\<close>

definition calleeFailed :: "env \<Rightarrow> callee \<Rightarrow> world \<Rightarrow> world" where
  "calleeFailed e c w =
     (case envCalleeError e c of None \<Rightarrow> w | Some err \<Rightarrow> w\<lparr>lastError := Some err\<rparr>)"

text \<open>Modelled from the spec: \<^verbatim>\<open>virDomainObjIsActive\<close> is an inline helper of a header
  that is not part of the source file. The numeric id is valid iff the domain is active;
  the invalid id is -1.\<close>

definition virDomainObjIsActive :: "virDomainObj \<Rightarrow> bool" where
  "virDomainObjIsActive v = (def_id v \<noteq> - 1)"

definition virDomainObjGetState :: "virDomainObj \<Rightarrow> virDomainState" where
  "virDomainObjGetState v = vm_state v"

text \<open>The lookup by UUID in the registry (another file) returns the domain object with
  its lock held, or nothing; then the function reports that no domain matches (the
  message carries the UUID and the name, left out here).\<close>

definition qemuDomObjFromDomain :: "env \<Rightarrow> virDomainObj \<Rightarrow> bool \<times> world" where
  "qemuDomObjFromDomain e v =
     (let w = \<lparr>vm = v, trace = [VirDomainObjListFindByUUID (envLookup e)], lastError = None\<rparr> in
      if envLookup e then (True, w)
      else (False, virReportError VIR_ERR_NO_DOMAIN ''no domain with matching uuid'' w))"

definition virObjectUnlock :: "world \<Rightarrow> world" where
  "virObjectUnlock w = emit VirObjectUnlock w"

definition virDomainEnsureACL :: "env \<Rightarrow> world \<Rightarrow> int \<times> world" where
  "virDomainEnsureACL e w =
     (if envACL e then (0, emit (EnsureACL True) w)
      else (- 1, calleeFailed e C_ACL (emit (EnsureACL False) w)))"

text \<open>Modelled from the spec: \<^verbatim>\<open>qemuDomainObjBeginJob\<close> lives in another file. It waits
  (lock released) until the synchronous slot is free, then sets the current synchronous
  job to the requested kind; on a timeout it fails and sets nothing.\<close>

definition qemuDomainObjBeginJob :: "env \<Rightarrow> qemuDomainJob \<Rightarrow> world \<Rightarrow> int \<times> world" where
  "qemuDomainObjBeginJob e j w =
     (case envBeginJob e j (vm w) of
        (True, v) \<Rightarrow>
          (0, emit (QemuDomainObjBeginJob j True)
                (w\<lparr>vm := v\<lparr>priv_job := (priv_job v)\<lparr>job_active := j\<rparr>\<rparr>\<rparr>))
      | (False, v) \<Rightarrow>
          (- 1, calleeFailed e C_BeginJob (emit (QemuDomainObjBeginJob j False) (w\<lparr>vm := v\<rparr>))))"

text \<open>Modelled from the spec: \<^verbatim>\<open>qemuDomainObjEndJob\<close> clears the synchronous slot and
  returns whether the domain object is still referenced.\<close>

definition qemuDomainObjEndJob :: "env \<Rightarrow> world \<Rightarrow> bool \<times> world" where
  "qemuDomainObjEndJob e w =
     (let v = (vm w)\<lparr>priv_job := (priv_job (vm w))\<lparr>job_active := QEMU_JOB_NONE\<rparr>\<rparr>;
          r = envEndJob e v
      in (r, emit (QemuDomainObjEndJob r) (w\<lparr>vm := v\<rparr>)))"

text \<open>Modelled from the spec: \<^verbatim>\<open>qemuProcessStopCPUs\<close> (another file) stops the guest
  CPUs through the monitor and on success records the state \<open>paused\<close> with the given
  reason; on failure it records nothing.\<close>

definition qemuProcessStopCPUs ::
  "env \<Rightarrow> virDomainStateReason \<Rightarrow> qemuDomainAsyncJob \<Rightarrow> world \<Rightarrow> int \<times> world" where
  "qemuProcessStopCPUs e r a w =
     (case envStopCPUs e (vm w) of
        (True, v) \<Rightarrow>
          (0, emit (QemuProcessStopCPUs r a True)
                (w\<lparr>vm := v\<lparr>vm_state := VIR_DOMAIN_PAUSED, vm_reason := r\<rparr>\<rparr>))
      | (False, v) \<Rightarrow>
          (- 1, calleeFailed e C_StopCPUs (emit (QemuProcessStopCPUs r a False) (w\<lparr>vm := v\<rparr>))))"

text \<open>Modelled from the spec: \<^verbatim>\<open>qemuProcessStartCPUs\<close> (another file) resumes the guest
  CPUs and on success records the state \<open>running\<close> with the given reason.\<close>

definition qemuProcessStartCPUs ::
  "env \<Rightarrow> virDomainStateReason \<Rightarrow> qemuDomainAsyncJob \<Rightarrow> world \<Rightarrow> int \<times> world" where
  "qemuProcessStartCPUs e r a w =
     (case envStartCPUs e (vm w) of
        (True, v) \<Rightarrow>
          (0, emit (QemuProcessStartCPUs r a True)
                (w\<lparr>vm := v\<lparr>vm_state := VIR_DOMAIN_RUNNING, vm_reason := r\<rparr>\<rparr>))
      | (False, v) \<Rightarrow>
          (- 1, calleeFailed e C_StartCPUs (emit (QemuProcessStartCPUs r a False) (w\<lparr>vm := v\<rparr>))))"

definition virDomainSaveStatus :: "env \<Rightarrow> world \<Rightarrow> int \<times> world" where
  "virDomainSaveStatus e w =
     (if envSaveStatus e then (0, emit (VirDomainSaveStatus True) w)
      else (- 1, calleeFailed e C_SaveStatus (emit (VirDomainSaveStatus False) w)))"

text \<open>\<^verbatim>\<open>virDomainEventLifecycleNewFromObj\<close> allocates the event and may return NULL.\<close>

definition virDomainEventLifecycleNewFromObj ::
  "env \<Rightarrow> virDomainEventType \<Rightarrow> int \<Rightarrow> virObjectEvent option" where
  "virDomainEventLifecycleNewFromObj e t d = (if envEventNew e then Some (t, d) else None)"

text \<open>\<^verbatim>\<open>qemuDomainEventQueue\<close> (another file) hands the event to the driver's event
  queue.\<close>

definition qemuDomainEventQueue :: "virObjectEvent \<Rightarrow> world \<Rightarrow> world" where
  "qemuDomainEventQueue ev w = emit (QemuDomainEventQueue ev) w"

definition virQEMUDriverGetCapabilities :: "env \<Rightarrow> world \<Rightarrow> bool \<times> world" where
  "virQEMUDriverGetCapabilities e w =
     (if envCaps e then (True, w) else (False, calleeFailed e C_GetCapabilities w))"

section \<open>qemuDomainSuspend\<close>

text \<open>The label \<^verbatim>\<open>cleanup\<close>: unlock if the local pointer is still set, then queue the
  event if there is one.\<close>

definition suspend_cleanup :: "bool \<Rightarrow> virObjectEvent option \<Rightarrow> int \<Rightarrow> world \<Rightarrow> int \<times> world" where
  "suspend_cleanup have_vm event ret w =
     (let w1 = (if have_vm then virObjectUnlock w else w);
          w2 = (case event of Some ev \<Rightarrow> qemuDomainEventQueue ev w1 | None \<Rightarrow> w1)
      in (ret, w2))"

text \<open>The label \<^verbatim>\<open>endjob\<close>: the local pointer is dropped when the job's end reports
  that the object is gone.\<close>

definition suspend_endjob ::
  "env \<Rightarrow> virObjectEvent option \<Rightarrow> int \<Rightarrow> world \<Rightarrow> int \<times> world" where
  "suspend_endjob e event ret w =
     (case qemuDomainObjEndJob e w of (still, w1) \<Rightarrow> suspend_cleanup still event ret w1)"

text \<open>The pause reason and the event detail follow from the running async job.\<close>

definition suspend_reason :: "virDomainObj \<Rightarrow> virDomainStateReason \<times> int" where
  "suspend_reason v =
     (if job_asyncJob (priv_job v) = QEMU_ASYNC_JOB_MIGRATION_OUT
        then (VIR_DOMAIN_PAUSED_MIGRATION, VIR_DOMAIN_EVENT_SUSPENDED_MIGRATED)
      else if job_asyncJob (priv_job v) = QEMU_ASYNC_JOB_SNAPSHOT
        then (VIR_DOMAIN_PAUSED_SNAPSHOT, - 1)
      else (VIR_DOMAIN_PAUSED_USER, VIR_DOMAIN_EVENT_SUSPENDED_PAUSED))"

text \<open>The part of the function after the job is held and the domain is known active.\<close>

definition suspend_body :: "env \<Rightarrow> world \<Rightarrow> int \<times> world" where
  "suspend_body e w =
     (case suspend_reason (vm w) of (reason, eventDetail) \<Rightarrow>
      let state = virDomainObjGetState (vm w) in
      if state = VIR_DOMAIN_PMSUSPENDED then
        suspend_endjob e None (- 1)
          (virReportError VIR_ERR_OPERATION_INVALID ''domain is pmsuspended'' w)
      else if state \<noteq> VIR_DOMAIN_PAUSED then
        (case qemuProcessStopCPUs e reason QEMU_ASYNC_JOB_NONE w of (rc, w1) \<Rightarrow>
         if rc < 0 then suspend_endjob e None (- 1) w1
         else
           let event = (if eventDetail \<ge> 0
                        then virDomainEventLifecycleNewFromObj e VIR_DOMAIN_EVENT_SUSPENDED eventDetail
                        else None)
           in (case virDomainSaveStatus e w1 of (rc2, w2) \<Rightarrow>
               if rc2 < 0 then suspend_endjob e event (- 1) w2
               else suspend_endjob e event 0 w2))
      else
        (case virDomainSaveStatus e w of (rc2, w2) \<Rightarrow>
         if rc2 < 0 then suspend_endjob e None (- 1) w2
         else suspend_endjob e None 0 w2))"

definition qemuDomainSuspend :: "env \<Rightarrow> virDomainObj \<Rightarrow> int \<times> world" where
  "qemuDomainSuspend e v0 =
     (case qemuDomObjFromDomain e v0 of
        (False, w) \<Rightarrow> (- 1, w)
      | (True, w) \<Rightarrow>
        (case virDomainEnsureACL e w of (rc, w1) \<Rightarrow>
         if rc < 0 then suspend_cleanup True None (- 1) w1
         else if \<not> virDomainObjIsActive (vm w1) then
           suspend_cleanup True None (- 1)
             (virReportError VIR_ERR_OPERATION_INVALID ''domain is not running'' w1)
         else
           (case qemuDomainObjBeginJob e QEMU_JOB_SUSPEND w1 of (rc2, w2) \<Rightarrow>
            if rc2 < 0 then suspend_cleanup True None (- 1) w2
            else if \<not> virDomainObjIsActive (vm w2) then
              suspend_endjob e None (- 1)
                (virReportError VIR_ERR_OPERATION_INVALID ''domain is not running'' w2)
            else suspend_body e w2)))"

section \<open>qemuDomainResume\<close>

text \<open>Both labels of resume do what those of suspend do (the references to the
  capabilities and the configuration that it drops are not modelled).\<close>

definition resume_body :: "env \<Rightarrow> world \<Rightarrow> int \<times> world" where
  "resume_body e w =
     (let state = virDomainObjGetState (vm w) in
      if state = VIR_DOMAIN_PMSUSPENDED then
        suspend_endjob e None (- 1)
          (virReportError VIR_ERR_OPERATION_INVALID ''domain is pmsuspended'' w)
      else
        (case (if state = VIR_DOMAIN_PAUSED
               then (case qemuProcessStartCPUs e VIR_DOMAIN_RUNNING_UNPAUSED QEMU_ASYNC_JOB_NONE w of
                       (rc, w1) \<Rightarrow>
                         if rc < 0 then
                           (False, None,
                            if lastError w1 = None
                            then virReportError VIR_ERR_OPERATION_FAILED ''resume operation failed'' w1
                            else w1)
                         else
                           (True,
                            virDomainEventLifecycleNewFromObj e VIR_DOMAIN_EVENT_RESUMED
                              VIR_DOMAIN_EVENT_RESUMED_UNPAUSED, w1))
               else (True, None, w)) of
           (False, event, w1) \<Rightarrow> suspend_endjob e event (- 1) w1
         | (True, event, w1) \<Rightarrow>
             (case virQEMUDriverGetCapabilities e w1 of
                (False, w2) \<Rightarrow> suspend_endjob e event (- 1) w2
              | (True, w2) \<Rightarrow>
                  (case virDomainSaveStatus e w2 of (rc2, w3) \<Rightarrow>
                   if rc2 < 0 then suspend_endjob e event (- 1) w3
                   else suspend_endjob e event 0 w3))))"

definition qemuDomainResume :: "env \<Rightarrow> virDomainObj \<Rightarrow> int \<times> world" where
  "qemuDomainResume e v0 =
     (case qemuDomObjFromDomain e v0 of
        (False, w) \<Rightarrow> (- 1, w)
      | (True, w) \<Rightarrow>
        (case virDomainEnsureACL e w of (rc, w1) \<Rightarrow>
         if rc < 0 then suspend_cleanup True None (- 1) w1
         else
           (case qemuDomainObjBeginJob e QEMU_JOB_MODIFY w1 of (rc2, w2) \<Rightarrow>
            if rc2 < 0 then suspend_cleanup True None (- 1) w2
            else if \<not> virDomainObjIsActive (vm w2) then
              suspend_endjob e None (- 1)
                (virReportError VIR_ERR_OPERATION_INVALID ''domain is not running'' w2)
            else resume_body e w2)))"

section \<open>Flags\<close>

text \<open>The flag bits are those of the public header, which is not part of the source
  file. \<^verbatim>\<open>virCheckFlags\<close> is a macro of another header: it reports an invalid argument
  and returns at once when a bit outside the supported mask is set.\<close>

definition VIR_DOMAIN_SHUTDOWN_ACPI_POWER_BTN :: "32 word" where
  "VIR_DOMAIN_SHUTDOWN_ACPI_POWER_BTN = 1"
definition VIR_DOMAIN_SHUTDOWN_GUEST_AGENT :: "32 word" where
  "VIR_DOMAIN_SHUTDOWN_GUEST_AGENT = 2"
definition VIR_DOMAIN_DESTROY_GRACEFUL :: "32 word" where
  "VIR_DOMAIN_DESTROY_GRACEFUL = 1"
definition VIR_DOMAIN_SAVE_BYPASS_CACHE :: "32 word" where
  "VIR_DOMAIN_SAVE_BYPASS_CACHE = 1"
definition VIR_DOMAIN_SAVE_RUNNING :: "32 word" where
  "VIR_DOMAIN_SAVE_RUNNING = 2"
definition VIR_DOMAIN_SAVE_PAUSED :: "32 word" where
  "VIR_DOMAIN_SAVE_PAUSED = 4"

definition virCheckFlags :: "32 word \<Rightarrow> 32 word \<Rightarrow> bool" where
  "virCheckFlags supported flags = (flags AND NOT supported = 0)"

definition flagsRejected :: "virDomainObj \<Rightarrow> int \<times> world" where
  "flagsRejected v =
     (- 1, \<lparr>vm = v, trace = [], lastError = Some (VIR_ERR_INVALID_ARG, ''unsupported flags'')\<rparr>)"

section \<open>qemuDomainShutdownFlags\<close>

text \<open>Modelled from the spec: \<^verbatim>\<open>qemuDomainSetFakeReboot\<close> (another file) records the
  fake-reboot setting in the private data.\<close>

definition qemuDomainSetFakeReboot :: "bool \<Rightarrow> world \<Rightarrow> world" where
  "qemuDomainSetFakeReboot b w =
     emit (QemuDomainSetFakeReboot b) (w\<lparr>vm := (vm w)\<lparr>priv_fakeReboot := b\<rparr>\<rparr>)"

text \<open>\<^verbatim>\<open>qemuDomainAgentAvailable\<close> belongs to another file; its answer is taken from
  the environment. It reports an error only when asked to.\<close>

definition qemuDomainAgentAvailable :: "env \<Rightarrow> bool \<Rightarrow> world \<Rightarrow> bool \<times> world" where
  "qemuDomainAgentAvailable e reportError w =
     (if envAgentAvailable e then (True, w)
      else (False, if reportError then calleeFailed e C_AgentAvailable w else w))"

text \<open>The agent round-trip: enter the agent guard (lock released), one request, exit
  the guard (lock held again).\<close>

definition shutdown_agent :: "env \<Rightarrow> bool \<Rightarrow> world \<Rightarrow> int \<times> world" where
  "shutdown_agent e isReboot w =
     (case envAgentShutdown e (vm w) of (r, v) \<Rightarrow>
        (r, emit QemuDomainObjExitAgent
              ((if r < 0 then calleeFailed e C_AgentShutdown else id)
                 (emit (QemuAgentShutdown isReboot r)
                    ((emit QemuDomainObjEnterAgent w)\<lparr>vm := v\<rparr>)))))"

definition shutdown_monitor :: "env \<Rightarrow> bool \<Rightarrow> world \<Rightarrow> int \<times> world" where
  "shutdown_monitor e isReboot w =
     (let w1 = qemuDomainSetFakeReboot isReboot w in
      case envSystemPowerdown e (vm w1) of (r, v) \<Rightarrow>
        (r, emit QemuDomainObjExitMonitor
              ((if r < 0 then calleeFailed e C_SystemPowerdown else id)
                 (emit (QemuMonitorSystemPowerdown r)
                    ((emit QemuDomainObjEnterMonitor w1)\<lparr>vm := v\<rparr>)))))"

definition shutdown_cleanup :: "bool \<Rightarrow> int \<Rightarrow> world \<Rightarrow> int \<times> world" where
  "shutdown_cleanup have_vm ret w = (ret, if have_vm then virObjectUnlock w else w)"

definition shutdown_endjob :: "env \<Rightarrow> int \<Rightarrow> world \<Rightarrow> int \<times> world" where
  "shutdown_endjob e ret w =
     (case qemuDomainObjEndJob e w of (still, w1) \<Rightarrow> shutdown_cleanup still ret w1)"

text \<open>The local Booleans of the function that depend on the flags and on the
  configured power-off action only.\<close>

definition shutdown_agentRequested :: "32 word \<Rightarrow> bool" where
  "shutdown_agentRequested flags = (flags AND VIR_DOMAIN_SHUTDOWN_GUEST_AGENT \<noteq> 0)"

definition shutdown_acpiRequested :: "32 word \<Rightarrow> bool" where
  "shutdown_acpiRequested flags = (flags AND VIR_DOMAIN_SHUTDOWN_ACPI_POWER_BTN \<noteq> 0)"

definition shutdown_agentForced :: "32 word \<Rightarrow> bool" where
  "shutdown_agentForced flags = (shutdown_agentRequested flags \<and> \<not> shutdown_acpiRequested flags)"

definition shutdown_isReboot :: "virDomainObj \<Rightarrow> bool" where
  "shutdown_isReboot v =
     (def_onPoweroff v = VIR_DOMAIN_LIFECYCLE_RESTART \<or>
      def_onPoweroff v = VIR_DOMAIN_LIFECYCLE_RESTART_RENAME)"

definition qemuDomainShutdownFlags :: "env \<Rightarrow> 32 word \<Rightarrow> virDomainObj \<Rightarrow> int \<times> world" where
  "qemuDomainShutdownFlags e flags v0 =
     (if \<not> virCheckFlags (VIR_DOMAIN_SHUTDOWN_ACPI_POWER_BTN OR VIR_DOMAIN_SHUTDOWN_GUEST_AGENT) flags
      then flagsRejected v0
      else
      case qemuDomObjFromDomain e v0 of
        (False, w) \<Rightarrow> shutdown_cleanup False (- 1) w
      | (True, w) \<Rightarrow>
        (let isReboot = shutdown_isReboot (vm w);
             agentRequested = shutdown_agentRequested flags;
             acpiRequested = shutdown_acpiRequested flags;
             useAgent0 = (agentRequested \<or> (flags = 0 \<and> priv_agent (vm w)))
         in
         case virDomainEnsureACL e w of (rc, w1) \<Rightarrow>
         if rc < 0 then shutdown_cleanup True (- 1) w1
         else
           let agentForced = shutdown_agentForced flags in
           case qemuDomainAgentAvailable e agentForced w1 of (avail, w2) \<Rightarrow>
           if \<not> avail \<and> agentForced then shutdown_cleanup True (- 1) w2
           else
             let useAgent = (if \<not> avail then False else useAgent0) in
             case qemuDomainObjBeginJob e QEMU_JOB_MODIFY w2 of (rc2, w3) \<Rightarrow>
             if rc2 < 0 then shutdown_cleanup True (- 1) w3
             else if \<not> virDomainObjIsActive (vm w3) then
               shutdown_endjob e (- 1)
                 (virReportError VIR_ERR_OPERATION_INVALID ''domain is not running'' w3)
             else
               case (if useAgent then shutdown_agent e isReboot w3 else (- 1, w3)) of
                 (ret, w4) \<Rightarrow>
                   if \<not> useAgent \<or> (ret < 0 \<and> (acpiRequested \<or> flags = 0)) then
                     (case shutdown_monitor e isReboot w4 of (ret2, w5) \<Rightarrow>
                        shutdown_endjob e ret2 w5)
                   else shutdown_endjob e ret w4))"

section \<open>qemuDomainDestroyFlags\<close>

text \<open>Modelled from the spec: \<^verbatim>\<open>qemuProcessKill\<close> (another file) signals the process,
  releasing the object lock while it waits for the process to go.\<close>

definition qemuProcessKill :: "env \<Rightarrow> bool \<Rightarrow> world \<Rightarrow> int \<times> world" where
  "qemuProcessKill e force w =
     (case envProcessKill e force (vm w) of
        (True, v) \<Rightarrow> (0, emit (QemuProcessKill force True) (w\<lparr>vm := v\<rparr>))
      | (False, v) \<Rightarrow>
          (- 1, calleeFailed e C_Kill (emit (QemuProcessKill force False) (w\<lparr>vm := v\<rparr>))))"

text \<open>Modelled from the spec: \<^verbatim>\<open>qemuProcessStop\<close> (another file) tears the process
  down; the domain becomes inactive, in state \<open>shutoff\<close> with the given reason.\<close>

definition qemuProcessStop :: "virDomainStateReason \<Rightarrow> world \<Rightarrow> world" where
  "qemuProcessStop r w =
     emit (QemuProcessStop r)
       (w\<lparr>vm := (vm w)\<lparr>def_id := - 1, vm_state := VIR_DOMAIN_SHUTOFF, vm_reason := r\<rparr>\<rparr>)"

text \<open>Modelled from the spec: \<^verbatim>\<open>qemuDomainRemoveInactive\<close> takes the object out of the
  registry; the object is unlocked and possibly freed by it.\<close>

definition qemuDomainRemoveInactive :: "world \<Rightarrow> world" where
  "qemuDomainRemoveInactive w = emit QemuDomainRemoveInactive w"

definition setBeingDestroyed :: "bool \<Rightarrow> world \<Rightarrow> world" where
  "setBeingDestroyed b w =
     emit (SetBeingDestroyed b) (w\<lparr>vm := (vm w)\<lparr>priv_beingDestroyed := b\<rparr>\<rparr>)"

text \<open>After the job is held and the domain is known active.\<close>

definition destroy_body :: "env \<Rightarrow> world \<Rightarrow> int \<times> world" where
  "destroy_body e w =
     (let w1 = qemuProcessStop VIR_DOMAIN_SHUTOFF_DESTROYED w;
          event = virDomainEventLifecycleNewFromObj e VIR_DOMAIN_EVENT_STOPPED
                    VIR_DOMAIN_EVENT_STOPPED_DESTROYED;
          w2 = emit VirDomainAuditStop w1
      in
      if \<not> persistent (vm w2) then
        (case qemuDomainObjEndJob e w2 of
           (True, w3) \<Rightarrow> suspend_cleanup False event 0 (qemuDomainRemoveInactive w3)
         | (False, w3) \<Rightarrow> suspend_cleanup False event 0 w3)
      else suspend_endjob e event 0 w2)"

definition qemuDomainDestroyFlags :: "env \<Rightarrow> 32 word \<Rightarrow> virDomainObj \<Rightarrow> int \<times> world" where
  "qemuDomainDestroyFlags e flags v0 =
     (if \<not> virCheckFlags VIR_DOMAIN_DESTROY_GRACEFUL flags then flagsRejected v0
      else
      case qemuDomObjFromDomain e v0 of
        (False, w) \<Rightarrow> (- 1, w)
      | (True, w) \<Rightarrow>
        (case virDomainEnsureACL e w of (rc, w1) \<Rightarrow>
         if rc < 0 then suspend_cleanup True None (- 1) w1
         else
           let w2 = setBeingDestroyed True (qemuDomainSetFakeReboot False w1) in
           case qemuProcessKill e (flags AND VIR_DOMAIN_DESTROY_GRACEFUL = 0) w2 of (rc2, w3) \<Rightarrow>
           if rc2 < 0 then suspend_cleanup True None (- 1) (setBeingDestroyed False w3)
           else
             case qemuDomainObjBeginJob e QEMU_JOB_DESTROY w3 of (rc3, w4) \<Rightarrow>
             if rc3 < 0 then suspend_cleanup True None (- 1) w4
             else
               let w5 = setBeingDestroyed False w4 in
               if \<not> virDomainObjIsActive (vm w5) then
                 suspend_endjob e None (- 1)
                   (virReportError VIR_ERR_OPERATION_INVALID ''domain is not running'' w5)
               else destroy_body e w5))"

section \<open>qemuDomainAbortJob\<close>

text \<open>Modelled from the spec: \<^verbatim>\<open>qemuDomainObjAbortAsyncJob\<close> (another file) sets the
  cancellation-requested flag of the current async job.\<close>

definition qemuDomainObjAbortAsyncJob :: "world \<Rightarrow> world" where
  "qemuDomainObjAbortAsyncJob w =
     emit QemuDomainObjAbortAsyncJob
       (w\<lparr>vm := (vm w)\<lparr>priv_job := (priv_job (vm w))\<lparr>job_asyncAbort := True\<rparr>\<rparr>\<rparr>)"

text \<open>The monitor round-trip of the cancel command, inside the monitor guard.\<close>

definition abort_monitor :: "env \<Rightarrow> world \<Rightarrow> int \<times> world" where
  "abort_monitor e w =
     (case envMigrateCancel e (vm w) of (r, v) \<Rightarrow>
        (r, emit QemuDomainObjExitMonitor
              ((if r < 0 then calleeFailed e C_MigrateCancel else id)
                 (emit (QemuMonitorMigrateCancel r)
                    ((emit QemuDomainObjEnterMonitor w)\<lparr>vm := v\<rparr>)))))"

definition qemuDomainAbortJob :: "env \<Rightarrow> virDomainObj \<Rightarrow> int \<times> world" where
  "qemuDomainAbortJob e v0 =
     (case qemuDomObjFromDomain e v0 of
        (False, w) \<Rightarrow> shutdown_cleanup False (- 1) w
      | (True, w) \<Rightarrow>
        (case virDomainEnsureACL e w of (rc, w1) \<Rightarrow>
         if rc < 0 then shutdown_cleanup True (- 1) w1
         else
           case qemuDomainObjBeginJob e QEMU_JOB_ABORT w1 of (rc2, w2) \<Rightarrow>
           if rc2 < 0 then shutdown_cleanup True (- 1) w2
           else if \<not> virDomainObjIsActive (vm w2) then
             shutdown_endjob e (- 1)
               (virReportError VIR_ERR_OPERATION_INVALID ''domain is not running'' w2)
           else if job_asyncJob (priv_job (vm w2)) = QEMU_ASYNC_JOB_NONE \<or>
                   job_dump_memory_only (priv_job (vm w2)) then
             shutdown_endjob e (- 1)
               (virReportError VIR_ERR_OPERATION_INVALID ''no job is active on the domain'' w2)
           else if job_asyncJob (priv_job (vm w2)) = QEMU_ASYNC_JOB_MIGRATION_IN then
             shutdown_endjob e (- 1)
               (virReportError VIR_ERR_OPERATION_INVALID
                  ''cannot abort incoming migration; use virDomainDestroy instead'' w2)
           else
             case abort_monitor e (qemuDomainObjAbortAsyncJob w2) of (ret, w3) \<Rightarrow>
               shutdown_endjob e ret w3))"

section \<open>qemuDomainGetJobInfo and qemuDomainGetJobStats\<close>

text \<open>\<^verbatim>\<open>memset(info, 0, sizeof(*info))\<close>; the job type with value 0 is
  \<^verbatim>\<open>VIR_DOMAIN_JOB_NONE\<close>.\<close>

definition zeroJobInfo :: virDomainJobInfo where
  "zeroJobInfo =
     \<lparr>info_type = VIR_DOMAIN_JOB_NONE, timeElapsed = 0, timeRemaining = 0, dataTotal = 0,
      dataProcessed = 0, dataRemaining = 0, memTotal = 0, memProcessed = 0, memRemaining = 0,
      fileTotal = 0, fileProcessed = 0, fileRemaining = 0\<rparr>"

text \<open>The caller's buffer \<^verbatim>\<open>info\<close> is passed in and returned as the call leaves it.\<close>

definition qemuDomainGetJobInfo ::
  "env \<Rightarrow> virDomainObj \<Rightarrow> virDomainJobInfo \<Rightarrow> int \<times> virDomainJobInfo \<times> world" where
  "qemuDomainGetJobInfo e v0 info =
     (case qemuDomObjFromDomain e v0 of
        (False, w) \<Rightarrow> (case shutdown_cleanup False (- 1) w of (r, w') \<Rightarrow> (r, info, w'))
      | (True, w) \<Rightarrow>
        (case virDomainEnsureACL e w of (rc, w1) \<Rightarrow>
         if rc < 0 then (case shutdown_cleanup True (- 1) w1 of (r, w') \<Rightarrow> (r, info, w'))
         else if virDomainObjIsActive (vm w1) then
           (if job_asyncJob (priv_job (vm w1)) \<noteq> QEMU_ASYNC_JOB_NONE \<and>
               \<not> job_dump_memory_only (priv_job (vm w1)) then
              (let info1 = job_info (priv_job (vm w1)) in
               case envTimeMillisNow e of
                 None \<Rightarrow>
                   (case shutdown_cleanup True (- 1) (calleeFailed e C_TimeMillisNow w1) of
                      (r, w') \<Rightarrow> (r, info1, w'))
               | Some now \<Rightarrow>
                   (case shutdown_cleanup True 0 w1 of
                      (r, w') \<Rightarrow>
                        (r, info1\<lparr>timeElapsed := now - job_start (priv_job (vm w1))\<rparr>, w')))
            else
              (case shutdown_cleanup True 0 w1 of
                 (r, w') \<Rightarrow> (r, zeroJobInfo\<lparr>info_type := VIR_DOMAIN_JOB_NONE\<rparr>, w')))
         else
           (case shutdown_cleanup True (- 1)
                   (virReportError VIR_ERR_OPERATION_INVALID ''domain is not running'' w1) of
              (r, w') \<Rightarrow> (r, info, w'))))"

text \<open>The names of the typed parameters (strings of the public header).\<close>

datatype jobStatsField =
    VIR_DOMAIN_JOB_TIME_ELAPSED | VIR_DOMAIN_JOB_TIME_REMAINING | VIR_DOMAIN_JOB_DOWNTIME
  | VIR_DOMAIN_JOB_DATA_TOTAL | VIR_DOMAIN_JOB_DATA_PROCESSED | VIR_DOMAIN_JOB_DATA_REMAINING
  | VIR_DOMAIN_JOB_MEMORY_TOTAL | VIR_DOMAIN_JOB_MEMORY_PROCESSED
  | VIR_DOMAIN_JOB_MEMORY_REMAINING | VIR_DOMAIN_JOB_MEMORY_CONSTANT
  | VIR_DOMAIN_JOB_MEMORY_NORMAL | VIR_DOMAIN_JOB_MEMORY_NORMAL_BYTES
  | VIR_DOMAIN_JOB_DISK_TOTAL | VIR_DOMAIN_JOB_DISK_PROCESSED | VIR_DOMAIN_JOB_DISK_REMAINING
  | VIR_DOMAIN_JOB_COMPRESSION_CACHE | VIR_DOMAIN_JOB_COMPRESSION_BYTES
  | VIR_DOMAIN_JOB_COMPRESSION_PAGES | VIR_DOMAIN_JOB_COMPRESSION_CACHE_MISSES
  | VIR_DOMAIN_JOB_COMPRESSION_OVERFLOW

type_synonym virTypedParameters = "(jobStatsField \<times> ullong) list"

text \<open>\<^verbatim>\<open>virTypedParamsAddULLong\<close> appends one parameter, or fails (the array cannot
  grow); \<open>None\<close> is its negative return.\<close>

definition virTypedParamsAddULLong ::
  "env \<Rightarrow> jobStatsField \<Rightarrow> ullong \<Rightarrow> virTypedParameters \<Rightarrow> virTypedParameters option" where
  "virTypedParamsAddULLong e name val par =
     (if envTypedParamsAdd e (length par) then Some (par @ [(name, val)]) else None)"

text \<open>An addition guarded by a condition: \<^verbatim>\<open>cond && add(...) < 0\<close>.\<close>

definition addIf ::
  "env \<Rightarrow> bool \<Rightarrow> jobStatsField \<Rightarrow> ullong \<Rightarrow> virTypedParameters \<Rightarrow> virTypedParameters option" where
  "addIf e cond name val par = (if cond then virTypedParamsAddULLong e name val par else Some par)"

text \<open>The chain of additions, in the order of the source; it stops at the first failure.\<close>

definition jobStatsParams :: "env \<Rightarrow> qemuDomainJobObj \<Rightarrow> virTypedParameters option" where
  "jobStatsParams e j =
     (let i = job_info j; st = job_status j in
      Option.bind (virTypedParamsAddULLong e VIR_DOMAIN_JOB_TIME_ELAPSED (timeElapsed i) [])
       (\<lambda>p. Option.bind (addIf e (info_type i = VIR_DOMAIN_JOB_BOUNDED)
                          VIR_DOMAIN_JOB_TIME_REMAINING (timeRemaining i) p)
       (\<lambda>p. Option.bind (addIf e (downtime_set st) VIR_DOMAIN_JOB_DOWNTIME (downtime st) p)
       (\<lambda>p. Option.bind (virTypedParamsAddULLong e VIR_DOMAIN_JOB_DATA_TOTAL (dataTotal i) p)
       (\<lambda>p. Option.bind (virTypedParamsAddULLong e VIR_DOMAIN_JOB_DATA_PROCESSED (dataProcessed i) p)
       (\<lambda>p. Option.bind (virTypedParamsAddULLong e VIR_DOMAIN_JOB_DATA_REMAINING (dataRemaining i) p)
       (\<lambda>p. Option.bind (virTypedParamsAddULLong e VIR_DOMAIN_JOB_MEMORY_TOTAL (memTotal i) p)
       (\<lambda>p. Option.bind (virTypedParamsAddULLong e VIR_DOMAIN_JOB_MEMORY_PROCESSED (memProcessed i) p)
       (\<lambda>p. Option.bind (virTypedParamsAddULLong e VIR_DOMAIN_JOB_MEMORY_REMAINING (memRemaining i) p)
       (\<lambda>p. Option.bind (addIf e (ram_duplicate_set st)
                          VIR_DOMAIN_JOB_MEMORY_CONSTANT (ram_duplicate st) p)
       (\<lambda>p. Option.bind (addIf e (ram_duplicate_set st)
                          VIR_DOMAIN_JOB_MEMORY_NORMAL (ram_normal st) p)
       (\<lambda>p. Option.bind (addIf e (ram_duplicate_set st)
                          VIR_DOMAIN_JOB_MEMORY_NORMAL_BYTES (ram_normal_bytes st) p)
       (\<lambda>p. Option.bind (virTypedParamsAddULLong e VIR_DOMAIN_JOB_DISK_TOTAL (fileTotal i) p)
       (\<lambda>p. Option.bind (virTypedParamsAddULLong e VIR_DOMAIN_JOB_DISK_PROCESSED (fileProcessed i) p)
       (\<lambda>p. Option.bind (virTypedParamsAddULLong e VIR_DOMAIN_JOB_DISK_REMAINING (fileRemaining i) p)
       (\<lambda>p. Option.bind (addIf e (xbzrle_set st)
                          VIR_DOMAIN_JOB_COMPRESSION_CACHE (xbzrle_cache_size st) p)
       (\<lambda>p. Option.bind (addIf e (xbzrle_set st)
                          VIR_DOMAIN_JOB_COMPRESSION_BYTES (xbzrle_bytes st) p)
       (\<lambda>p. Option.bind (addIf e (xbzrle_set st)
                          VIR_DOMAIN_JOB_COMPRESSION_PAGES (xbzrle_pages st) p)
       (\<lambda>p. Option.bind (addIf e (xbzrle_set st)
                          VIR_DOMAIN_JOB_COMPRESSION_CACHE_MISSES (xbzrle_cache_miss st) p)
       (\<lambda>p. addIf e (xbzrle_set st)
                 VIR_DOMAIN_JOB_COMPRESSION_OVERFLOW (xbzrle_overflow st) p))))))))))))))))))))"

text \<open>The three out-parameters \<^verbatim>\<open>type\<close>, \<^verbatim>\<open>params\<close> and \<^verbatim>\<open>nparams\<close> are written
  only on the two successful returns; \<open>None\<close> means they were left untouched. The number
  of parameters is the length of the list.\<close>

definition qemuDomainGetJobStats ::
  "env \<Rightarrow> 32 word \<Rightarrow> virDomainObj \<Rightarrow>
     int \<times> (virDomainJobType \<times> virTypedParameters) option \<times> world" where
  "qemuDomainGetJobStats e flags v0 =
     (if \<not> virCheckFlags 0 flags then (case flagsRejected v0 of (r, w') \<Rightarrow> (r, None, w'))
      else
      case qemuDomObjFromDomain e v0 of
        (False, w) \<Rightarrow> (case shutdown_cleanup False (- 1) w of (r, w') \<Rightarrow> (r, None, w'))
      | (True, w) \<Rightarrow>
        (case virDomainEnsureACL e w of (rc, w1) \<Rightarrow>
         if rc < 0 then (case shutdown_cleanup True (- 1) w1 of (r, w') \<Rightarrow> (r, None, w'))
         else if \<not> virDomainObjIsActive (vm w1) then
           (case shutdown_cleanup True (- 1)
                   (virReportError VIR_ERR_OPERATION_INVALID ''domain is not running'' w1) of
              (r, w') \<Rightarrow> (r, None, w'))
         else if job_asyncJob (priv_job (vm w1)) = QEMU_ASYNC_JOB_NONE \<or>
                 job_dump_memory_only (priv_job (vm w1)) then
           (case shutdown_cleanup True 0 w1 of
              (r, w') \<Rightarrow> (r, Some (VIR_DOMAIN_JOB_NONE, []), w'))
         else
           (case envTimeMillisNow e of
             None \<Rightarrow>
               (case shutdown_cleanup True (- 1) (calleeFailed e C_TimeMillisNow w1) of
                  (r, w') \<Rightarrow> (r, None, w'))
           | Some now \<Rightarrow>
               (let j = priv_job (vm w1);
                    j1 = j\<lparr>job_info := (job_info j)\<lparr>timeElapsed := now - job_start j\<rparr>\<rparr>;
                    w2 = w1\<lparr>vm := (vm w1)\<lparr>priv_job := j1\<rparr>\<rparr>
                in case jobStatsParams e j1 of
                     None \<Rightarrow>
                       (case shutdown_cleanup True (- 1) (calleeFailed e C_TypedParamsAdd w2) of
                          (r, w') \<Rightarrow> (r, None, w'))
                   | Some par \<Rightarrow>
                       (case shutdown_cleanup True 0 w2 of
                          (r, w') \<Rightarrow> (r, Some (info_type (job_info j1), par), w'))))))"

section \<open>qemuDomainSaveInternal and qemuDomainSaveFlags\<close>

text \<open>Modelled from the spec: \<^verbatim>\<open>qemuDomainObjBeginAsyncJob\<close> (another file) waits like
  the synchronous variant, then occupies the async slot with a zeroed progress block.\<close>

definition qemuDomainObjBeginAsyncJob ::
  "env \<Rightarrow> qemuDomainAsyncJob \<Rightarrow> world \<Rightarrow> int \<times> world" where
  "qemuDomainObjBeginAsyncJob e a w =
     (case envBeginAsyncJob e a (vm w) of
        (True, v) \<Rightarrow>
          (0, emit (QemuDomainObjBeginAsyncJob a True)
                (w\<lparr>vm := v\<lparr>priv_job := (priv_job v)\<lparr>job_asyncJob := a, job_info := zeroJobInfo\<rparr>\<rparr>\<rparr>))
      | (False, v) \<Rightarrow>
          (- 1, calleeFailed e C_BeginAsyncJob
                  (emit (QemuDomainObjBeginAsyncJob a False) (w\<lparr>vm := v\<rparr>))))"

text \<open>Modelled from the spec: \<^verbatim>\<open>qemuDomainObjEndAsyncJob\<close> clears the async slot and
  the progress statistics and returns whether the object is still referenced.\<close>

definition qemuDomainObjEndAsyncJob :: "env \<Rightarrow> world \<Rightarrow> bool \<times> world" where
  "qemuDomainObjEndAsyncJob e w =
     (let v = (vm w)\<lparr>priv_job := (priv_job (vm w))
                  \<lparr>job_asyncJob := QEMU_ASYNC_JOB_NONE, job_info := zeroJobInfo\<rparr>\<rparr>;
          r = envEndAsyncJob e v
      in (r, emit (QemuDomainObjEndAsyncJob r) (w\<lparr>vm := v\<rparr>)))"

text \<open>\<^verbatim>\<open>qemuDomainSaveMemory\<close> (same file) builds the header, opens the file and has
  the memory written to it through the monitor, with the lock released meanwhile. The
  save reads only its return value; that value and the domain object as found afterwards
  come from the environment. The first argument in the trace is the \<^verbatim>\<open>was_running\<close>
  that is handed to it.\<close>

definition qemuDomainSaveMemory :: "env \<Rightarrow> bool \<Rightarrow> world \<Rightarrow> int \<times> world" where
  "qemuDomainSaveMemory e was_running w =
     (case envSaveMemory e (vm w) of (r, v) \<Rightarrow>
        (r, (if r < 0 then calleeFailed e C_SaveMemory else id)
              (emit (QemuDomainSaveMemory was_running r) (w\<lparr>vm := v\<rparr>))))"

text \<open>The label \<^verbatim>\<open>cleanup\<close> of the save: the event is queued first, then the object
  is unlocked if the local pointer is still set.\<close>

definition save_cleanup :: "bool \<Rightarrow> virObjectEvent option \<Rightarrow> int \<Rightarrow> world \<Rightarrow> int \<times> world" where
  "save_cleanup have_vm event ret w =
     (let w1 = (case event of Some ev \<Rightarrow> qemuDomainEventQueue ev w | None \<Rightarrow> w);
          w2 = (if have_vm then virObjectUnlock w1 else w1)
      in (ret, w2))"

text \<open>The label \<^verbatim>\<open>endjob\<close> of the save, with the rollback. The result of the resume
  goes to a variable of its own (\<^verbatim>\<open>rc\<close>), never to \<^verbatim>\<open>ret\<close>.\<close>

definition save_endjob ::
  "env \<Rightarrow> bool \<Rightarrow> bool \<Rightarrow> virObjectEvent option \<Rightarrow> int \<Rightarrow> world \<Rightarrow> int \<times> world" where
  "save_endjob e have_vm was_running event ret w =
     (if have_vm then
        (case (if ret \<noteq> 0 \<and> was_running \<and> virDomainObjIsActive (vm w) then
                 (case qemuProcessStartCPUs e VIR_DOMAIN_RUNNING_SAVE_CANCELED QEMU_ASYNC_JOB_SAVE w of
                    (rc, w1) \<Rightarrow>
                      if rc < 0 then
                        (virDomainEventLifecycleNewFromObj e VIR_DOMAIN_EVENT_SUSPENDED
                           VIR_DOMAIN_EVENT_SUSPENDED_API_ERROR, w1)
                      else (event, w1))
               else (event, w)) of
           (event1, w2) \<Rightarrow>
             (case qemuDomainObjEndAsyncJob e w2 of
                (still, w3) \<Rightarrow> save_cleanup still event1 ret w3))
      else save_cleanup False event ret w)"

text \<open>After a successful write of the image: shut the domain down.\<close>

definition save_commit :: "env \<Rightarrow> bool \<Rightarrow> int \<Rightarrow> world \<Rightarrow> int \<times> world" where
  "save_commit e was_running ret w =
     (let w1 = emit VirDomainAuditStop (qemuProcessStop VIR_DOMAIN_SHUTOFF_SAVED w);
          event = virDomainEventLifecycleNewFromObj e VIR_DOMAIN_EVENT_STOPPED
                    VIR_DOMAIN_EVENT_STOPPED_SAVED
      in
      if \<not> persistent (vm w1) then
        (case qemuDomainObjEndAsyncJob e w1 of
           (True, w2) \<Rightarrow> save_endjob e False was_running event ret (qemuDomainRemoveInactive w2)
         | (False, w2) \<Rightarrow> save_endjob e False was_running event ret w2)
      else save_endjob e True was_running event ret w1)"

text \<open>From the flags' override of \<^verbatim>\<open>was_running\<close> to the write of the image.
  \<^verbatim>\<open>xmlin\<close> is whether the caller gave a replacement description.\<close>

definition save_after_pause :: "env \<Rightarrow> bool \<Rightarrow> 32 word \<Rightarrow> bool \<Rightarrow> world \<Rightarrow> int \<times> world" where
  "save_after_pause e xmlin flags was_running0 w =
     (let was_running =
            (if flags AND VIR_DOMAIN_SAVE_RUNNING \<noteq> 0 then True
             else if flags AND VIR_DOMAIN_SAVE_PAUSED \<noteq> 0 then False
             else was_running0)
      in
      if xmlin \<and> \<not> envDefParse e then
        save_endjob e True was_running None (- 1) (calleeFailed e C_DefParse w)
      else if xmlin \<and> \<not> envCheckABI e then
        save_endjob e True was_running None (- 1) (calleeFailed e C_CheckABI w)
      else if \<not> envFormatLive e then
        save_endjob e True was_running None (- 1)
          (virReportError VIR_ERR_OPERATION_FAILED ''failed to get domain xml'' w)
      else
        (case qemuDomainSaveMemory e was_running w of
           (ret, w1) \<Rightarrow>
             if ret < 0 then save_endjob e True was_running None ret w1
             else save_commit e was_running ret w1))"

text \<open>The domain object comes in locked and active (the callers see to that).\<close>

definition qemuDomainSaveInternal :: "env \<Rightarrow> bool \<Rightarrow> 32 word \<Rightarrow> world \<Rightarrow> int \<times> world" where
  "qemuDomainSaveInternal e xmlin flags w =
     (case virQEMUDriverGetCapabilities e w of
        (False, w1) \<Rightarrow> save_cleanup True None (- 1) w1
      | (True, w1) \<Rightarrow>
          if \<not> envMigrationIsAllowed e then
            save_cleanup True None (- 1) (calleeFailed e C_MigrationIsAllowed w1)
          else
            (case qemuDomainObjBeginAsyncJob e QEMU_ASYNC_JOB_SAVE w1 of
               (rc, w2) \<Rightarrow>
                 if rc < 0 then save_cleanup True None (- 1) w2
                 else
                   let j = priv_job (vm w2);
                       w3 = w2\<lparr>vm := (vm w2)\<lparr>priv_job :=
                              j\<lparr>job_info := zeroJobInfo\<lparr>info_type := VIR_DOMAIN_JOB_UNBOUNDED\<rparr>\<rparr>\<rparr>\<rparr>
                   in
                   if virDomainObjGetState (vm w3) = VIR_DOMAIN_RUNNING then
                     (case qemuProcessStopCPUs e VIR_DOMAIN_PAUSED_SAVE QEMU_ASYNC_JOB_SAVE w3 of
                        (rc2, w4) \<Rightarrow>
                          if rc2 < 0 then save_endjob e True True None (- 1) w4
                          else if \<not> virDomainObjIsActive (vm w4) then
                            save_endjob e True True None (- 1)
                              (virReportError VIR_ERR_INTERNAL_ERROR ''guest unexpectedly quit'' w4)
                          else save_after_pause e xmlin flags True w4)
                   else save_after_pause e xmlin flags False w3))"

definition QEMU_SAVE_FORMAT_RAW :: int where
  "QEMU_SAVE_FORMAT_RAW = 0"

text \<open>A compression program is needed for every format but the raw one; whether it is
  found in the path is the environment's answer.\<close>

definition qemuCompressProgramAvailable :: "env \<Rightarrow> int \<Rightarrow> bool" where
  "qemuCompressProgramAvailable e compress =
     (if compress = QEMU_SAVE_FORMAT_RAW then True else envFindFileInPath e)"

text \<open>The entry point. The configured image format is read from the environment:
  \<open>None\<close> when none is configured, otherwise the number its name translates to
  (negative for an unknown name).\<close>

definition qemuDomainSaveFlags :: "env \<Rightarrow> bool \<Rightarrow> 32 word \<Rightarrow> virDomainObj \<Rightarrow> int \<times> world" where
  "qemuDomainSaveFlags e dxml flags v0 =
     (let w0 = \<lparr>vm = v0, trace = [], lastError = None\<rparr> in
      if \<not> virCheckFlags (VIR_DOMAIN_SAVE_BYPASS_CACHE OR VIR_DOMAIN_SAVE_RUNNING OR
                           VIR_DOMAIN_SAVE_PAUSED) flags
      then flagsRejected v0
      else if (case envSaveImageFormat e of None \<Rightarrow> False | Some c \<Rightarrow> c < 0) then
        (- 1, virReportError VIR_ERR_OPERATION_FAILED
                ''Invalid save image format specified in configuration file'' w0)
      else if (case envSaveImageFormat e of None \<Rightarrow> False
               | Some c \<Rightarrow> \<not> qemuCompressProgramAvailable e c) then
        (- 1, virReportError VIR_ERR_OPERATION_FAILED
                ''Compression program for image format in configuration file isn't available'' w0)
      else
        case qemuDomObjFromDomain e v0 of
          (False, w) \<Rightarrow> (- 1, w)
        | (True, w) \<Rightarrow>
          (case virDomainEnsureACL e w of (rc, w1) \<Rightarrow>
           if rc < 0 then shutdown_cleanup True (- 1) w1
           else if \<not> virDomainObjIsActive (vm w1) then
             shutdown_cleanup True (- 1)
               (virReportError VIR_ERR_OPERATION_INVALID ''domain is not running'' w1)
           else qemuDomainSaveInternal e dxml flags w1))"

section \<open>Properties of traces\<close>

text \<open>Whether the calling thread holds the object lock after a call. The lookup returns
  the object locked; the unlock, the removal from the registry and the end of a job that
  reports the object gone leave the thread without it.\<close>

fun lock_after :: "bool \<Rightarrow> action \<Rightarrow> bool" where
  "lock_after held (VirDomainObjListFindByUUID ok) = ok"
| "lock_after held VirObjectUnlock = False"
| "lock_after held QemuDomainRemoveInactive = False"
| "lock_after held (QemuDomainObjEndJob still) = (held \<and> still)"
| "lock_after held (QemuDomainObjEndAsyncJob still) = (held \<and> still)"
| "lock_after held a = held"

fun is_event_queue :: "action \<Rightarrow> bool" where
  "is_event_queue (QemuDomainEventQueue ev) = True"
| "is_event_queue a = False"

text \<open>No event is queued at a point of the trace where the thread holds the lock.\<close>

fun events_outside_lock :: "bool \<Rightarrow> action list \<Rightarrow> bool" where
  "events_outside_lock held [] = True"
| "events_outside_lock held (a # as) =
     ((if is_event_queue a then \<not> held else True) \<and> events_outside_lock (lock_after held a) as)"

text \<open>The calls that change the lifecycle state of the guest, talk to the hypervisor
  about it or announce a change.\<close>

fun is_transition :: "action \<Rightarrow> bool" where
  "is_transition (QemuProcessStopCPUs r a ok) = True"
| "is_transition (QemuProcessStartCPUs r a ok) = True"
| "is_transition (QemuProcessStop r) = True"
| "is_transition (QemuDomainEventQueue ev) = True"
| "is_transition (QemuAgentShutdown b r) = True"
| "is_transition (QemuMonitorSystemPowerdown r) = True"
| "is_transition (QemuMonitorMigrateCancel r) = True"
| "is_transition QemuDomainObjAbortAsyncJob = True"
| "is_transition QemuDomainRemoveInactive = True"
| "is_transition a = False"



section \<open>The entry points as the driver table names them\<close>

datatype admin_op =
    DomainSuspend | DomainResume | DomainShutdownFlags "32 word" | DomainDestroyFlags "32 word"
  | DomainAbortJob

fun run_op :: "env \<Rightarrow> admin_op \<Rightarrow> virDomainObj \<Rightarrow> int \<times> world" where
  "run_op e DomainSuspend v = qemuDomainSuspend e v"
| "run_op e DomainResume v = qemuDomainResume e v"
| "run_op e (DomainShutdownFlags flags) v = qemuDomainShutdownFlags e flags v"
| "run_op e (DomainDestroyFlags flags) v = qemuDomainDestroyFlags e flags v"
| "run_op e DomainAbortJob v = qemuDomainAbortJob e v"

section \<open>Notions used in the statements\<close>



text \<open>The marker \<^verbatim>\<open>beingDestroyed\<close> read off a trace: every release of the lock by the
  kill or by the wait for the job happens with the marker set. The first argument is
  the marker's value before the trace.\<close>

fun marker_in_window :: "bool \<Rightarrow> action list \<Rightarrow> bool" where
  "marker_in_window m [] = True"
| "marker_in_window m (SetBeingDestroyed b # as) = marker_in_window b as"
| "marker_in_window m (QemuProcessKill f ok # as) = (m \<and> marker_in_window m as)"
| "marker_in_window m (QemuDomainObjBeginJob j ok # as) = (m \<and> marker_in_window m as)"
| "marker_in_window m (a # as) = marker_in_window m as"

text \<open>The kill comes before the request for the job: the job is asked for only after
  a kill that succeeded. The first argument is whether such a kill has been seen.\<close>

fun kill_before_job :: "bool \<Rightarrow> action list \<Rightarrow> bool" where
  "kill_before_job killed [] = True"
| "kill_before_job killed (QemuProcessKill f ok # as) = kill_before_job ok as"
| "kill_before_job killed (QemuDomainObjBeginJob j ok # as) = (killed \<and> kill_before_job killed as)"
| "kill_before_job killed (a # as) = kill_before_job killed as"

text \<open>The calls a pure query may make: the locked lookup, the permission check, an
  error report and the unlock.\<close>

fun is_query_action :: "action \<Rightarrow> bool" where
  "is_query_action (VirDomainObjListFindByUUID ok) = True"
| "is_query_action (EnsureACL ok) = True"
| "is_query_action (VirReportError c m) = True"
| "is_query_action VirObjectUnlock = True"
| "is_query_action a = False"

text \<open>The domain object with the stored elapsed time of the job set anew.\<close>

definition refreshElapsed :: "ullong \<Rightarrow> virDomainObj \<Rightarrow> virDomainObj" where
  "refreshElapsed now v =
     v\<lparr>priv_job := (priv_job v)
          \<lparr>job_info := (job_info (priv_job v))\<lparr>timeElapsed := now - job_start (priv_job v)\<rparr>\<rparr>\<rparr>"

text \<open>Whether a job is reported: the async slot is taken, and not by a memory-only dump.\<close>

definition job_reported :: "virDomainObj \<Rightarrow> bool" where
  "job_reported v =
     (job_asyncJob (priv_job v) \<noteq> QEMU_ASYNC_JOB_NONE \<and> \<not> job_dump_memory_only (priv_job v))"





section \<open>Concrete environments and domains\<close>

definition job_idle :: qemuDomainJobObj where
  "job_idle =
     \<lparr>job_active = QEMU_JOB_NONE, job_asyncJob = QEMU_ASYNC_JOB_NONE, job_asyncAbort = False,
      job_start = 100, job_dump_memory_only = False, job_info = zeroJobInfo,
      job_status =
        \<lparr>downtime_set = False, downtime = 0, ram_duplicate_set = False, ram_duplicate = 0,
         ram_normal = 0, ram_normal_bytes = 0, xbzrle_set = False, xbzrle_cache_size = 0,
         xbzrle_bytes = 0, xbzrle_pages = 0, xbzrle_cache_miss = 0, xbzrle_overflow = 0\<rparr>\<rparr>"

text \<open>A persistent domain that runs, with no job.\<close>

definition vm_running :: virDomainObj where
  "vm_running =
     \<lparr>def_id = 1, def_onPoweroff = VIR_DOMAIN_LIFECYCLE_DESTROY, persistent = True,
      hasManagedSave = False, vm_state = VIR_DOMAIN_RUNNING,
      vm_reason = VIR_DOMAIN_RUNNING_BOOTED, priv_job = job_idle,
      priv_beingDestroyed = False, priv_fakeReboot = False, priv_agent = True\<rparr>"

text \<open>The same domain, paused after an I/O error of the guest.\<close>

definition vm_paused_ioerror :: virDomainObj where
  "vm_paused_ioerror =
     vm_running\<lparr>vm_state := VIR_DOMAIN_PAUSED, vm_reason := VIR_DOMAIN_PAUSED_IOERROR\<rparr>"

text \<open>The same domain with an async job in the slot.\<close>

definition vm_async :: "qemuDomainAsyncJob \<Rightarrow> virDomainObj" where
  "vm_async a = vm_running\<lparr>priv_job := job_idle\<lparr>job_asyncJob := a\<rparr>\<rparr>"

text \<open>Every outside function succeeds and no other thread touches the domain.\<close>

definition env_ok :: env where
  "env_ok =
     \<lparr>envLookup = True, envACL = True,
      envBeginJob = (\<lambda>j v. (True, v)), envEndJob = (\<lambda>v. True),
      envBeginAsyncJob = (\<lambda>a v. (True, v)), envEndAsyncJob = (\<lambda>v. True),
      envStopCPUs = (\<lambda>v. (True, v)), envStartCPUs = (\<lambda>v. (True, v)),
      envProcessKill = (\<lambda>f v. (True, v)),
      envSaveStatus = True, envCaps = True, envEventNew = True, envAgentAvailable = True,
      envAgentShutdown = (\<lambda>v. (0, v)), envSystemPowerdown = (\<lambda>v. (0, v)),
      envMigrateCancel = (\<lambda>v. (0, v)), envTimeMillisNow = Some 150,
      envTypedParamsAdd = (\<lambda>n. True), envMigrationIsAllowed = True, envDefParse = True,
      envCheckABI = True, envFormatLive = True, envSaveMemory = (\<lambda>v. (0, v)),
      envSaveImageFormat = None, envFindFileInPath = True,
      envCalleeError = (\<lambda>c. Some (VIR_ERR_INTERNAL_ERROR, ''callee failed''))\<rparr>"

text \<open>The domain dies while the thread waits for the job.\<close>

definition died :: "virDomainObj \<Rightarrow> virDomainObj" where
  "died v = v\<lparr>def_id := - 1, vm_state := VIR_DOMAIN_SHUTOFF, vm_reason := VIR_DOMAIN_REASON_UNKNOWN\<rparr>"

definition env_dies_waiting :: env where
  "env_dies_waiting = env_ok\<lparr>envBeginJob := (\<lambda>j v. (True, died v))\<rparr>"

text \<open>Another job keeps the synchronous slot: the wait for the job times out.\<close>

definition env_job_busy :: env where
  "env_job_busy =
     env_ok\<lparr>envBeginJob := (\<lambda>j v. (False, v)),
            envCalleeError := (\<lambda>c. Some (VIR_ERR_OPERATION_TIMEOUT, ''cannot acquire state change lock''))\<rparr>"

text \<open>Writing the save image fails; resuming the CPUs afterwards fails as well.\<close>

definition env_save_fails :: env where
  "env_save_fails = env_ok\<lparr>envSaveMemory := (\<lambda>v. (- 1, v))\<rparr>"

definition env_save_resume_fails :: env where
  "env_save_resume_fails = env_save_fails\<lparr>envStartCPUs := (\<lambda>v. (False, v))\<rparr>"

text \<open>The guest agent does not answer.\<close>

definition env_agent_fails :: env where
  "env_agent_fails = env_ok\<lparr>envAgentShutdown := (\<lambda>v. (- 1, v))\<rparr>"

definition env_no_agent :: env where
  "env_no_agent = env_ok\<lparr>envAgentAvailable := False\<rparr>"



text \<open>The definitions of the calls and labels, for unfolding.\<close>

lemmas prim_defs =
  emit_def virReportError_def calleeFailed_def virDomainObjIsActive_def
  virDomainObjGetState_def qemuDomObjFromDomain_def virObjectUnlock_def virDomainEnsureACL_def
  qemuDomainObjBeginJob_def qemuDomainObjEndJob_def qemuProcessStopCPUs_def
  qemuProcessStartCPUs_def virDomainSaveStatus_def virDomainEventLifecycleNewFromObj_def
  qemuDomainEventQueue_def virQEMUDriverGetCapabilities_def qemuDomainSetFakeReboot_def
  qemuDomainAgentAvailable_def qemuProcessKill_def qemuProcessStop_def
  qemuDomainRemoveInactive_def setBeingDestroyed_def qemuDomainObjAbortAsyncJob_def
  qemuDomainObjBeginAsyncJob_def qemuDomainObjEndAsyncJob_def qemuDomainSaveMemory_def
  virCheckFlags_def flagsRejected_def

lemmas label_defs =
  suspend_cleanup_def suspend_endjob_def shutdown_cleanup_def shutdown_endjob_def
  save_cleanup_def save_endjob_def

lemmas input_defs =
  env_ok_def env_dies_waiting_def env_job_busy_def env_save_fails_def
  env_save_resume_fails_def env_agent_fails_def env_no_agent_def died_def
  vm_running_def vm_paused_ioerror_def vm_async_def job_idle_def zeroJobInfo_def

lemmas const_defs =
  VIR_DOMAIN_EVENT_SUSPENDED_PAUSED_def VIR_DOMAIN_EVENT_SUSPENDED_MIGRATED_def
  VIR_DOMAIN_EVENT_SUSPENDED_API_ERROR_def VIR_DOMAIN_EVENT_RESUMED_UNPAUSED_def
  VIR_DOMAIN_EVENT_STOPPED_DESTROYED_def VIR_DOMAIN_EVENT_STOPPED_SAVED_def
  VIR_DOMAIN_SHUTDOWN_ACPI_POWER_BTN_def VIR_DOMAIN_SHUTDOWN_GUEST_AGENT_def
  VIR_DOMAIN_DESTROY_GRACEFUL_def VIR_DOMAIN_SAVE_BYPASS_CACHE_def
  VIR_DOMAIN_SAVE_RUNNING_def VIR_DOMAIN_SAVE_PAUSED_def

section \<open>Suspending a domain that is already paused\<close>

text \<open>One call on a domain found paused once the job is held: the CPUs are not stopped
  again, the status file is written and the domain object is left as it was found, only
  the job slot is cleared.\<close>

lemma suspend_paused_once:
  assumes "envLookup e" and "envACL e" and "virDomainObjIsActive v0"
    and "envBeginJob e QEMU_JOB_SUSPEND v0 = (True, v1)"
    and "virDomainObjIsActive v1" and "vm_state v1 = VIR_DOMAIN_PAUSED"
    and "envSaveStatus e"
  shows "fst (qemuDomainSuspend e v0) = 0
     \<and> vm (snd (qemuDomainSuspend e v0)) = v1\<lparr>priv_job := (priv_job v1)\<lparr>job_active := QEMU_JOB_NONE\<rparr>\<rparr>
     \<and> list_all (\<lambda>a. \<not> is_transition a) (trace (snd (qemuDomainSuspend e v0)))"
  using assms
  by (simp add: qemuDomainSuspend_def suspend_body_def suspend_reason_def label_defs prim_defs
      Let_def split: prod.splits)

text \<open>
  Claim C1, as the code has it. A suspend of a domain that is paused when the job is
  held succeeds (returns 0, given that the status file can be written), makes no
  transition and leaves state and pause reason as they are, whatever reason the call
  would have recorded; a second suspend right after it succeeds as well and leaves the
  same reason.
\<close>

theorem suspend_already_paused:
  assumes "envLookup e" and "envACL e" and "virDomainObjIsActive v0"
    and "envBeginJob e QEMU_JOB_SUSPEND v0 = (True, v1)"
    and "virDomainObjIsActive v1" and "vm_state v1 = VIR_DOMAIN_PAUSED"
    and "envSaveStatus e"
    and "v2 = vm (snd (qemuDomainSuspend e v0))"
  shows "fst (qemuDomainSuspend e v0) = 0
     \<and> vm_state v2 = VIR_DOMAIN_PAUSED \<and> vm_reason v2 = vm_reason v1
     \<and> list_all (\<lambda>a. \<not> is_transition a) (trace (snd (qemuDomainSuspend e v0)))
     \<and> (envBeginJob e QEMU_JOB_SUSPEND v2 = (True, v2) \<longrightarrow>
          fst (qemuDomainSuspend e v2) = 0
          \<and> vm_state (vm (snd (qemuDomainSuspend e v2))) = VIR_DOMAIN_PAUSED
          \<and> vm_reason (vm (snd (qemuDomainSuspend e v2))) = vm_reason v1)"
proof -
  have first: "fst (qemuDomainSuspend e v0) = 0
     \<and> v2 = v1\<lparr>priv_job := (priv_job v1)\<lparr>job_active := QEMU_JOB_NONE\<rparr>\<rparr>
     \<and> list_all (\<lambda>a. \<not> is_transition a) (trace (snd (qemuDomainSuspend e v0)))"
    using suspend_paused_once [OF assms(1-7)] assms(8) by simp
  then have v2: "virDomainObjIsActive v2" "vm_state v2 = VIR_DOMAIN_PAUSED"
      "vm_reason v2 = vm_reason v1"
    using assms(5,6) by (simp_all add: virDomainObjIsActive_def)
  have second: "fst (qemuDomainSuspend e v2) = 0
          \<and> vm_state (vm (snd (qemuDomainSuspend e v2))) = VIR_DOMAIN_PAUSED
          \<and> vm_reason (vm (snd (qemuDomainSuspend e v2))) = vm_reason v1"
    if "envBeginJob e QEMU_JOB_SUSPEND v2 = (True, v2)"
    using suspend_paused_once [OF assms(1,2) v2(1) that v2(1,2) assms(7)] v2 by simp
  from first v2 second show ?thesis by simp
qed

theorem suspend_already_paused_witness:
  "fst (qemuDomainSuspend env_ok vm_paused_ioerror) = 0
     \<and> vm_state (vm (snd (qemuDomainSuspend env_ok vm_paused_ioerror))) = VIR_DOMAIN_PAUSED
     \<and> vm_reason (vm (snd (qemuDomainSuspend env_ok vm_paused_ioerror))) = VIR_DOMAIN_PAUSED_IOERROR
     \<and> fst (qemuDomainSuspend env_ok (vm (snd (qemuDomainSuspend env_ok vm_paused_ioerror)))) = 0"
proof -
  have env: "envLookup env_ok" "envACL env_ok" "envSaveStatus env_ok"
      "envBeginJob env_ok QEMU_JOB_SUSPEND vm_paused_ioerror = (True, vm_paused_ioerror)"
    by (simp_all add: env_ok_def)
  have dom: "virDomainObjIsActive vm_paused_ioerror"
      "vm_state vm_paused_ioerror = VIR_DOMAIN_PAUSED"
    by (simp_all add: input_defs virDomainObjIsActive_def)
  show ?thesis
    using suspend_already_paused [OF env(1,2) dom(1) env(4) dom(1,2) env(3) refl]
    by (simp add: input_defs)
qed

text \<open>
  Claim C1 as stated fails where the reasons differ. The domain is paused for an I/O
  error; no async job runs, so the suspend asks for the reason \<open>user\<close>. The call
  returns 0 and the recorded reason is not updated to \<open>user\<close>.
\<close>

theorem suspend_reason_not_updated:
  "vm_state vm_paused_ioerror = VIR_DOMAIN_PAUSED
     \<and> vm_reason vm_paused_ioerror = VIR_DOMAIN_PAUSED_IOERROR
     \<and> fst (suspend_reason vm_paused_ioerror) = VIR_DOMAIN_PAUSED_USER
     \<and> fst (qemuDomainSuspend env_ok vm_paused_ioerror) = 0
     \<and> vm_reason (vm (snd (qemuDomainSuspend env_ok vm_paused_ioerror))) \<noteq> VIR_DOMAIN_PAUSED_USER"
  by (simp add: qemuDomainSuspend_def suspend_body_def suspend_reason_def label_defs prim_defs
      input_defs Let_def)

section \<open>Resuming a domain that is not paused\<close>

lemma resume_not_paused_once:
  assumes "envLookup e" and "envACL e"
    and "envBeginJob e QEMU_JOB_MODIFY v0 = (True, v1)"
    and "virDomainObjIsActive v1"
    and "vm_state v1 \<noteq> VIR_DOMAIN_PAUSED" and "vm_state v1 \<noteq> VIR_DOMAIN_PMSUSPENDED"
    and "envCaps e" and "envSaveStatus e"
  shows "fst (qemuDomainResume e v0) = 0
     \<and> vm (snd (qemuDomainResume e v0)) = v1\<lparr>priv_job := (priv_job v1)\<lparr>job_active := QEMU_JOB_NONE\<rparr>\<rparr>
     \<and> trace (snd (qemuDomainResume e v0)) =
         [VirDomainObjListFindByUUID True, EnsureACL True, QemuDomainObjBeginJob QEMU_JOB_MODIFY True,
          VirDomainSaveStatus True,
          QemuDomainObjEndJob (envEndJob e (v1\<lparr>priv_job := (priv_job v1)\<lparr>job_active := QEMU_JOB_NONE\<rparr>\<rparr>))]
         @ (if envEndJob e (v1\<lparr>priv_job := (priv_job v1)\<lparr>job_active := QEMU_JOB_NONE\<rparr>\<rparr>)
            then [VirObjectUnlock] else [])"
  using assms
  by (simp add: qemuDomainResume_def resume_body_def label_defs prim_defs Let_def split: prod.splits)

text \<open>
  Claim C10. A resume of a domain that is active and neither paused nor pmsuspended when
  the job is held returns 0 (given the capabilities and a writable status file), starts
  no CPUs, queues no event and leaves state and reason unchanged; the status file is
  written. A second resume right after it succeeds again with the same state.
\<close>

theorem resume_not_paused:
  assumes "envLookup e" and "envACL e"
    and "envBeginJob e QEMU_JOB_MODIFY v0 = (True, v1)"
    and "virDomainObjIsActive v1"
    and "vm_state v1 \<noteq> VIR_DOMAIN_PAUSED" and "vm_state v1 \<noteq> VIR_DOMAIN_PMSUSPENDED"
    and "envCaps e" and "envSaveStatus e"
    and "v2 = vm (snd (qemuDomainResume e v0))"
  shows "fst (qemuDomainResume e v0) = 0
     \<and> vm_state v2 = vm_state v1 \<and> vm_reason v2 = vm_reason v1
     \<and> list_all (\<lambda>a. \<not> is_transition a) (trace (snd (qemuDomainResume e v0)))
     \<and> VirDomainSaveStatus True \<in> set (trace (snd (qemuDomainResume e v0)))
     \<and> (envBeginJob e QEMU_JOB_MODIFY v2 = (True, v2) \<longrightarrow>
          fst (qemuDomainResume e v2) = 0
          \<and> vm_state (vm (snd (qemuDomainResume e v2))) = vm_state v1
          \<and> vm_reason (vm (snd (qemuDomainResume e v2))) = vm_reason v1)"
proof -
  have first: "fst (qemuDomainResume e v0) = 0
     \<and> v2 = v1\<lparr>priv_job := (priv_job v1)\<lparr>job_active := QEMU_JOB_NONE\<rparr>\<rparr>
     \<and> list_all (\<lambda>a. \<not> is_transition a) (trace (snd (qemuDomainResume e v0)))
     \<and> VirDomainSaveStatus True \<in> set (trace (snd (qemuDomainResume e v0)))"
    using resume_not_paused_once [OF assms(1-8)] assms(9) by simp
  then have v2: "virDomainObjIsActive v2" "vm_state v2 \<noteq> VIR_DOMAIN_PAUSED"
      "vm_state v2 \<noteq> VIR_DOMAIN_PMSUSPENDED" "vm_state v2 = vm_state v1"
      "vm_reason v2 = vm_reason v1"
    using assms(4-6) by (simp_all add: virDomainObjIsActive_def)
  have second: "fst (qemuDomainResume e v2) = 0
          \<and> vm_state (vm (snd (qemuDomainResume e v2))) = vm_state v1
          \<and> vm_reason (vm (snd (qemuDomainResume e v2))) = vm_reason v1"
    if "envBeginJob e QEMU_JOB_MODIFY v2 = (True, v2)"
    using resume_not_paused_once [OF assms(1,2) that v2(1-3) assms(7,8)] v2 by simp
  from first v2 second show ?thesis by simp
qed

theorem resume_not_paused_witness:
  "fst (qemuDomainResume env_ok vm_running) = 0
     \<and> vm_state (vm (snd (qemuDomainResume env_ok vm_running))) = VIR_DOMAIN_RUNNING
     \<and> vm_reason (vm (snd (qemuDomainResume env_ok vm_running))) = VIR_DOMAIN_RUNNING_BOOTED
     \<and> fst (qemuDomainResume env_ok (vm (snd (qemuDomainResume env_ok vm_running)))) = 0
     \<and> vm_state (vm (snd (qemuDomainResume env_ok (vm (snd (qemuDomainResume env_ok vm_running))))))
         = VIR_DOMAIN_RUNNING"
proof -
  have env: "envLookup env_ok" "envACL env_ok" "envCaps env_ok" "envSaveStatus env_ok"
      "envBeginJob env_ok QEMU_JOB_MODIFY vm_running = (True, vm_running)"
    by (simp_all add: env_ok_def)
  have dom: "virDomainObjIsActive vm_running" "vm_state vm_running \<noteq> VIR_DOMAIN_PAUSED"
      "vm_state vm_running \<noteq> VIR_DOMAIN_PMSUSPENDED"
    by (simp_all add: input_defs virDomainObjIsActive_def)
  show ?thesis
    using resume_not_paused [OF env(1,2,5) dom env(3,4) refl]
    by (simp add: input_defs)
qed

section \<open>The liveness re-check after the job is acquired\<close>









section \<open>Aborting a job\<close>

text \<open>
  Claim C6. When abort-job holds its job, finds the domain active and finds either an
  inbound migration or no async job in the slot, it fails with an OperationInvalid
  error, sets no cancellation flag and sends nothing to the monitor; the domain object
  is left as found, only the synchronous slot is cleared. For the inbound migration the
  message points to destroy. (The memory-only-dump marker is set only while a dump job
  runs; were it set, the message would be the one for no job.)
\<close>

theorem abort_inbound_or_none_refused:
  assumes "envLookup e" and "envACL e"
    and "envBeginJob e QEMU_JOB_ABORT v0 = (True, v1)"
    and "virDomainObjIsActive v1"
    and "job_asyncJob (priv_job v1) = QEMU_ASYNC_JOB_MIGRATION_IN \<or>
         job_asyncJob (priv_job v1) = QEMU_ASYNC_JOB_NONE"
    and "r = qemuDomainAbortJob e v0"
  shows "fst r = - 1
     \<and> lastError (snd r) =
         Some (VIR_ERR_OPERATION_INVALID,
               if job_asyncJob (priv_job v1) = QEMU_ASYNC_JOB_MIGRATION_IN \<and>
                  \<not> job_dump_memory_only (priv_job v1)
               then ''cannot abort incoming migration; use virDomainDestroy instead''
               else ''no job is active on the domain'')
     \<and> vm (snd r) = v1\<lparr>priv_job := (priv_job v1)\<lparr>job_active := QEMU_JOB_NONE\<rparr>\<rparr>
     \<and> job_asyncAbort (priv_job (vm (snd r))) = job_asyncAbort (priv_job v1)
     \<and> list_all (\<lambda>a. \<not> is_transition a) (trace (snd r))
     \<and> QemuDomainObjEnterMonitor \<notin> set (trace (snd r))"
proof -
  have run: "r =
      shutdown_endjob e (- 1)
        (virReportError VIR_ERR_OPERATION_INVALID
           (if job_asyncJob (priv_job v1) = QEMU_ASYNC_JOB_MIGRATION_IN \<and>
               \<not> job_dump_memory_only (priv_job v1)
            then ''cannot abort incoming migration; use virDomainDestroy instead''
            else ''no job is active on the domain'')
           \<lparr>vm = v1\<lparr>priv_job := (priv_job v1)\<lparr>job_active := QEMU_JOB_ABORT\<rparr>\<rparr>,
            trace = [VirDomainObjListFindByUUID True, EnsureACL True,
                     QemuDomainObjBeginJob QEMU_JOB_ABORT True],
            lastError = None\<rparr>)"
    unfolding assms(6) using assms(1-5)
    by (auto simp add: qemuDomainAbortJob_def prim_defs Let_def)
  show ?thesis
    unfolding run by (simp add: label_defs prim_defs Let_def)
qed

theorem abort_inbound_or_none_refused_witness:
  "fst (qemuDomainAbortJob env_ok (vm_async QEMU_ASYNC_JOB_MIGRATION_IN)) = - 1
     \<and> lastError (snd (qemuDomainAbortJob env_ok (vm_async QEMU_ASYNC_JOB_MIGRATION_IN))) =
         Some (VIR_ERR_OPERATION_INVALID,
               ''cannot abort incoming migration; use virDomainDestroy instead'')
     \<and> \<not> job_asyncAbort (priv_job (vm (snd (qemuDomainAbortJob env_ok
             (vm_async QEMU_ASYNC_JOB_MIGRATION_IN)))))
     \<and> fst (qemuDomainAbortJob env_ok vm_running) = - 1
     \<and> lastError (snd (qemuDomainAbortJob env_ok vm_running)) =
         Some (VIR_ERR_OPERATION_INVALID, ''no job is active on the domain'')"
proof -
  have env: "envLookup env_ok" "envACL env_ok"
      "envBeginJob env_ok QEMU_JOB_ABORT (vm_async QEMU_ASYNC_JOB_MIGRATION_IN) =
         (True, vm_async QEMU_ASYNC_JOB_MIGRATION_IN)"
      "envBeginJob env_ok QEMU_JOB_ABORT vm_running = (True, vm_running)"
    by (simp_all add: env_ok_def)
  have dom: "virDomainObjIsActive (vm_async QEMU_ASYNC_JOB_MIGRATION_IN)"
      "virDomainObjIsActive vm_running"
      "job_asyncJob (priv_job (vm_async QEMU_ASYNC_JOB_MIGRATION_IN)) = QEMU_ASYNC_JOB_MIGRATION_IN \<or>
       job_asyncJob (priv_job (vm_async QEMU_ASYNC_JOB_MIGRATION_IN)) = QEMU_ASYNC_JOB_NONE"
      "job_asyncJob (priv_job vm_running) = QEMU_ASYNC_JOB_MIGRATION_IN \<or>
       job_asyncJob (priv_job vm_running) = QEMU_ASYNC_JOB_NONE"
    by (simp_all add: input_defs virDomainObjIsActive_def)
  show ?thesis
    using abort_inbound_or_none_refused [OF env(1,2,3) dom(1,3) refl]
      abort_inbound_or_none_refused [OF env(1,2,4) dom(2,4) refl]
    by (simp add: input_defs)
qed

text \<open>A failing callee leaves the domain object and the trace alone.\<close>

lemma calleeFailed_simps [simp]:
  "vm (calleeFailed e c w) = vm w"
  "trace (calleeFailed e c w) = trace w"
  by (simp_all add: calleeFailed_def split: option.splits)

lemmas prim_defs_trace =
  emit_def virReportError_def virDomainObjIsActive_def
  virDomainObjGetState_def qemuDomObjFromDomain_def virObjectUnlock_def virDomainEnsureACL_def
  qemuDomainObjBeginJob_def qemuDomainObjEndJob_def qemuProcessStopCPUs_def
  qemuProcessStartCPUs_def virDomainSaveStatus_def virDomainEventLifecycleNewFromObj_def
  qemuDomainEventQueue_def virQEMUDriverGetCapabilities_def qemuDomainSetFakeReboot_def
  qemuDomainAgentAvailable_def qemuProcessKill_def qemuProcessStop_def
  qemuDomainRemoveInactive_def setBeingDestroyed_def qemuDomainObjAbortAsyncJob_def
  qemuDomainObjBeginAsyncJob_def qemuDomainObjEndAsyncJob_def qemuDomainSaveMemory_def
  virCheckFlags_def flagsRejected_def



section \<open>Destroy and its marker\<close>

text \<open>The parts of claim C3 that hold on every run of destroy: the marker is set before
  the lock is released for the kill and for the wait for the job, and the process has
  been killed before the job is asked for. This holds whatever the initial marker.\<close>

lemma destroy_marker_window:
  "marker_in_window m (trace (snd (qemuDomainDestroyFlags e flags v0)))
     \<and> kill_before_job False (trace (snd (qemuDomainDestroyFlags e flags v0)))"
  by (simp add: qemuDomainDestroyFlags_def destroy_body_def label_defs prim_defs_trace Let_def
      split_beta bool.case_eq_if option.case_eq_if)

text \<open>The marker is reset where the kill fails and where the job is acquired.\<close>

lemma destroy_marker_reset_kill_fails:
  assumes "envLookup e" and "envACL e"
    and "virCheckFlags VIR_DOMAIN_DESTROY_GRACEFUL flags"
    and "\<not> fst (envProcessKill e (flags AND VIR_DOMAIN_DESTROY_GRACEFUL = 0)
                 (v0\<lparr>priv_fakeReboot := False, priv_beingDestroyed := True\<rparr>))"
  shows "\<not> priv_beingDestroyed (vm (snd (qemuDomainDestroyFlags e flags v0)))"
  using assms
  by (simp add: qemuDomainDestroyFlags_def label_defs prim_defs_trace Let_def
      split_beta bool.case_eq_if option.case_eq_if)

lemma destroy_marker_reset_job_acquired:
  assumes "envLookup e" and "envACL e"
    and "virCheckFlags VIR_DOMAIN_DESTROY_GRACEFUL flags"
    and "envProcessKill e (flags AND VIR_DOMAIN_DESTROY_GRACEFUL = 0)
           (v0\<lparr>priv_fakeReboot := False, priv_beingDestroyed := True\<rparr>) = (True, v1)"
    and "fst (envBeginJob e QEMU_JOB_DESTROY v1)"
  shows "\<not> priv_beingDestroyed (vm (snd (qemuDomainDestroyFlags e flags v0)))"
  using assms
  by (simp add: qemuDomainDestroyFlags_def destroy_body_def label_defs prim_defs_trace Let_def
      split_beta bool.case_eq_if option.case_eq_if)

text \<open>
  Claim C3, at the input where the code departs from it. The process is killed, but
  another job keeps the synchronous slot and the wait for the destroy job times out.
  The call returns -1 through \<^verbatim>\<open>cleanup\<close> and the marker is still set: this exit
  path does not reset it.
\<close>

theorem destroy_marker_left_set:
  "fst (qemuDomainDestroyFlags env_job_busy 0 vm_running) = - 1
     \<and> trace (snd (qemuDomainDestroyFlags env_job_busy 0 vm_running)) =
         [VirDomainObjListFindByUUID True, EnsureACL True, QemuDomainSetFakeReboot False,
          SetBeingDestroyed True, QemuProcessKill True True,
          QemuDomainObjBeginJob QEMU_JOB_DESTROY False, VirObjectUnlock]
     \<and> priv_beingDestroyed (vm (snd (qemuDomainDestroyFlags env_job_busy 0 vm_running)))
     \<and> \<not> priv_beingDestroyed vm_running"
  by (simp add: qemuDomainDestroyFlags_def label_defs prim_defs const_defs input_defs Let_def)

section \<open>What each call appends to the trace\<close>

lemma trace_virReportError [simp]:
  "trace (virReportError c m w) = trace w @ [VirReportError c m]"
  by (simp add: virReportError_def)

lemma trace_virObjectUnlock [simp]:
  "trace (virObjectUnlock w) = trace w @ [VirObjectUnlock]"
  by (simp add: virObjectUnlock_def emit_def)

lemma trace_qemuDomainEventQueue [simp]:
  "trace (qemuDomainEventQueue ev w) = trace w @ [QemuDomainEventQueue ev]"
  by (simp add: qemuDomainEventQueue_def emit_def)

lemma trace_qemuDomObjFromDomain [simp]:
  "trace (snd (qemuDomObjFromDomain e v)) =
     VirDomainObjListFindByUUID (envLookup e)
     # (if envLookup e then []
        else [VirReportError VIR_ERR_NO_DOMAIN ''no domain with matching uuid''])"
  "fst (qemuDomObjFromDomain e v) = envLookup e"
  by (simp_all add: qemuDomObjFromDomain_def virReportError_def Let_def)

lemma trace_virDomainEnsureACL [simp]:
  "trace (snd (virDomainEnsureACL e w)) = trace w @ [EnsureACL (envACL e)]"
  "fst (virDomainEnsureACL e w) < 0 \<longleftrightarrow> \<not> envACL e"
  by (simp_all add: virDomainEnsureACL_def emit_def)

lemma trace_qemuDomainObjBeginJob [simp]:
  "trace (snd (qemuDomainObjBeginJob e j w)) =
     trace w @ [QemuDomainObjBeginJob j (fst (envBeginJob e j (vm w)))]"
  "fst (qemuDomainObjBeginJob e j w) < 0 \<longleftrightarrow> \<not> fst (envBeginJob e j (vm w))"
  by (simp_all add: qemuDomainObjBeginJob_def emit_def split_beta bool.case_eq_if)

lemma trace_qemuDomainObjEndJob [simp]:
  "trace (snd (qemuDomainObjEndJob e w)) =
     trace w @ [QemuDomainObjEndJob (fst (qemuDomainObjEndJob e w))]"
  by (simp add: qemuDomainObjEndJob_def emit_def Let_def)

lemma trace_qemuDomainObjBeginAsyncJob [simp]:
  "trace (snd (qemuDomainObjBeginAsyncJob e a w)) =
     trace w @ [QemuDomainObjBeginAsyncJob a (fst (envBeginAsyncJob e a (vm w)))]"
  "fst (qemuDomainObjBeginAsyncJob e a w) < 0 \<longleftrightarrow> \<not> fst (envBeginAsyncJob e a (vm w))"
  by (simp_all add: qemuDomainObjBeginAsyncJob_def emit_def split_beta bool.case_eq_if)

lemma trace_qemuDomainObjEndAsyncJob [simp]:
  "trace (snd (qemuDomainObjEndAsyncJob e w)) =
     trace w @ [QemuDomainObjEndAsyncJob (fst (qemuDomainObjEndAsyncJob e w))]"
  by (simp add: qemuDomainObjEndAsyncJob_def emit_def Let_def)

lemma trace_qemuProcessStopCPUs [simp]:
  "trace (snd (qemuProcessStopCPUs e r a w)) =
     trace w @ [QemuProcessStopCPUs r a (fst (envStopCPUs e (vm w)))]"
  "fst (qemuProcessStopCPUs e r a w) < 0 \<longleftrightarrow> \<not> fst (envStopCPUs e (vm w))"
  by (simp_all add: qemuProcessStopCPUs_def emit_def split_beta bool.case_eq_if)

lemma trace_qemuProcessStartCPUs [simp]:
  "trace (snd (qemuProcessStartCPUs e r a w)) =
     trace w @ [QemuProcessStartCPUs r a (fst (envStartCPUs e (vm w)))]"
  "fst (qemuProcessStartCPUs e r a w) < 0 \<longleftrightarrow> \<not> fst (envStartCPUs e (vm w))"
  by (simp_all add: qemuProcessStartCPUs_def emit_def split_beta bool.case_eq_if)

lemma trace_qemuProcessKill [simp]:
  "trace (snd (qemuProcessKill e f w)) = trace w @ [QemuProcessKill f (fst (envProcessKill e f (vm w)))]"
  "fst (qemuProcessKill e f w) < 0 \<longleftrightarrow> \<not> fst (envProcessKill e f (vm w))"
  by (simp_all add: qemuProcessKill_def emit_def split_beta bool.case_eq_if)

lemma trace_virDomainSaveStatus [simp]:
  "trace (snd (virDomainSaveStatus e w)) = trace w @ [VirDomainSaveStatus (envSaveStatus e)]"
  "fst (virDomainSaveStatus e w) < 0 \<longleftrightarrow> \<not> envSaveStatus e"
  by (simp_all add: virDomainSaveStatus_def emit_def)

lemma trace_virQEMUDriverGetCapabilities [simp]:
  "trace (snd (virQEMUDriverGetCapabilities e w)) = trace w"
  "fst (virQEMUDriverGetCapabilities e w) = envCaps e"
  by (simp_all add: virQEMUDriverGetCapabilities_def)

lemma trace_qemuDomainAgentAvailable [simp]:
  "trace (snd (qemuDomainAgentAvailable e b w)) = trace w"
  "fst (qemuDomainAgentAvailable e b w) = envAgentAvailable e"
  by (simp_all add: qemuDomainAgentAvailable_def)

lemma trace_qemuDomainSetFakeReboot [simp]:
  "trace (qemuDomainSetFakeReboot b w) = trace w @ [QemuDomainSetFakeReboot b]"
  by (simp add: qemuDomainSetFakeReboot_def emit_def)

lemma trace_setBeingDestroyed [simp]:
  "trace (setBeingDestroyed b w) = trace w @ [SetBeingDestroyed b]"
  by (simp add: setBeingDestroyed_def emit_def)

lemma trace_qemuProcessStop [simp]:
  "trace (qemuProcessStop r w) = trace w @ [QemuProcessStop r]"
  by (simp add: qemuProcessStop_def emit_def)

lemma trace_qemuDomainRemoveInactive [simp]:
  "trace (qemuDomainRemoveInactive w) = trace w @ [QemuDomainRemoveInactive]"
  by (simp add: qemuDomainRemoveInactive_def emit_def)

lemma trace_qemuDomainObjAbortAsyncJob [simp]:
  "trace (qemuDomainObjAbortAsyncJob w) = trace w @ [QemuDomainObjAbortAsyncJob]"
  by (simp add: qemuDomainObjAbortAsyncJob_def emit_def)

lemma trace_qemuDomainSaveMemory [simp]:
  "trace (snd (qemuDomainSaveMemory e b w)) =
     trace w @ [QemuDomainSaveMemory b (fst (envSaveMemory e (vm w)))]"
  "fst (qemuDomainSaveMemory e b w) = fst (envSaveMemory e (vm w))"
  by (simp_all add: qemuDomainSaveMemory_def emit_def split_beta)

lemma trace_emit [simp]: "trace (emit a w) = trace w @ [a]"
  by (simp add: emit_def)

text \<open>The labels.\<close>

lemma trace_suspend_cleanup [simp]:
  "trace (snd (suspend_cleanup have_vm event ret w)) =
     trace w @ (if have_vm then [VirObjectUnlock] else [])
             @ (case event of Some ev \<Rightarrow> [QemuDomainEventQueue ev] | None \<Rightarrow> [])"
  "fst (suspend_cleanup have_vm event ret w) = ret"
  by (simp_all add: suspend_cleanup_def Let_def split: option.splits)

lemma trace_suspend_endjob [simp]:
  "trace (snd (suspend_endjob e event ret w)) =
     trace w @ QemuDomainObjEndJob (fst (qemuDomainObjEndJob e w))
             # (if fst (qemuDomainObjEndJob e w) then [VirObjectUnlock] else [])
             @ (case event of Some ev \<Rightarrow> [QemuDomainEventQueue ev] | None \<Rightarrow> [])"
  "fst (suspend_endjob e event ret w) = ret"
  by (simp_all add: suspend_endjob_def split_beta)

lemma trace_shutdown_cleanup [simp]:
  "trace (snd (shutdown_cleanup have_vm ret w)) =
     trace w @ (if have_vm then [VirObjectUnlock] else [])"
  "fst (shutdown_cleanup have_vm ret w) = ret"
  by (simp_all add: shutdown_cleanup_def)

lemma trace_shutdown_endjob [simp]:
  "trace (snd (shutdown_endjob e ret w)) =
     trace w @ QemuDomainObjEndJob (fst (qemuDomainObjEndJob e w))
             # (if fst (qemuDomainObjEndJob e w) then [VirObjectUnlock] else [])"
  "fst (shutdown_endjob e ret w) = ret"
  by (simp_all add: shutdown_endjob_def split_beta)

lemma trace_save_cleanup [simp]:
  "trace (snd (save_cleanup have_vm event ret w)) =
     trace w @ (case event of Some ev \<Rightarrow> [QemuDomainEventQueue ev] | None \<Rightarrow> [])
             @ (if have_vm then [VirObjectUnlock] else [])"
  "fst (save_cleanup have_vm event ret w) = ret"
  by (simp_all add: save_cleanup_def Let_def split: option.splits)

text \<open>The two round-trips of the shutdown and the one of abort-job.\<close>

lemma trace_shutdown_agent [simp]:
  "trace (snd (shutdown_agent e b w)) =
     trace w @ [QemuDomainObjEnterAgent, QemuAgentShutdown b (fst (envAgentShutdown e (vm w))),
                QemuDomainObjExitAgent]"
  "fst (shutdown_agent e b w) = fst (envAgentShutdown e (vm w))"
  by (simp_all add: shutdown_agent_def split_beta)

lemma trace_shutdown_monitor [simp]:
  "trace (snd (shutdown_monitor e b w)) =
     trace w @ [QemuDomainSetFakeReboot b, QemuDomainObjEnterMonitor,
                QemuMonitorSystemPowerdown (fst (shutdown_monitor e b w)),
                QemuDomainObjExitMonitor]"
  by (simp add: shutdown_monitor_def split_beta Let_def)

lemma trace_abort_monitor [simp]:
  "trace (snd (abort_monitor e w)) =
     trace w @ [QemuDomainObjEnterMonitor, QemuMonitorMigrateCancel (fst (abort_monitor e w)),
                QemuDomainObjExitMonitor]"
  by (simp add: abort_monitor_def split_beta)

section \<open>Events and the object lock\<close>

lemma suspend_events_outside_lock:
  "events_outside_lock False (trace (snd (qemuDomainSuspend e v0)))"
  by (simp add: qemuDomainSuspend_def suspend_body_def virDomainEventLifecycleNewFromObj_def Let_def split_beta bool.case_eq_if)

lemma resume_events_outside_lock:
  "events_outside_lock False (trace (snd (qemuDomainResume e v0)))"
  by (simp add: qemuDomainResume_def resume_body_def virDomainEventLifecycleNewFromObj_def Let_def split_beta bool.case_eq_if)

lemma destroy_events_outside_lock:
  "events_outside_lock False (trace (snd (qemuDomainDestroyFlags e flags v0)))"
  by (simp add: qemuDomainDestroyFlags_def destroy_body_def flagsRejected_def virDomainEventLifecycleNewFromObj_def Let_def split_beta bool.case_eq_if)

lemma shutdown_events_outside_lock:
  "events_outside_lock False (trace (snd (qemuDomainShutdownFlags e flags v0)))"
  by (simp add: qemuDomainShutdownFlags_def flagsRejected_def Let_def split_beta bool.case_eq_if)

lemma abort_events_outside_lock:
  "events_outside_lock False (trace (snd (qemuDomainAbortJob e v0)))"
  by (simp add: qemuDomainAbortJob_def Let_def split_beta bool.case_eq_if)

text \<open>
  Claim C8, as the code has it. For suspend, resume and destroy (and for shutdown and
  abort-job, which queue nothing), on every path the event is handed to the event queue
  only after the thread has given up the object lock: by the unlock, by the end of the
  job reporting the object gone, or by the removal of the object from the registry.
\<close>

theorem events_queued_after_unlock:
  "events_outside_lock False (trace (snd (run_op e op v0)))"
  by (cases op)
    (simp_all add: suspend_events_outside_lock resume_events_outside_lock
      destroy_events_outside_lock shutdown_events_outside_lock abort_events_outside_lock)

theorem events_queued_after_unlock_witness:
  "events_outside_lock False (trace (snd (run_op env_ok DomainSuspend vm_running)))
     \<and> trace (snd (run_op env_ok DomainSuspend vm_running)) =
         [VirDomainObjListFindByUUID True, EnsureACL True, QemuDomainObjBeginJob QEMU_JOB_SUSPEND True,
          QemuProcessStopCPUs VIR_DOMAIN_PAUSED_USER QEMU_ASYNC_JOB_NONE True,
          VirDomainSaveStatus True, QemuDomainObjEndJob True, VirObjectUnlock,
          QemuDomainEventQueue (VIR_DOMAIN_EVENT_SUSPENDED, 0)]"
  using events_queued_after_unlock [of env_ok DomainSuspend vm_running]
  by (simp add: qemuDomainSuspend_def suspend_body_def suspend_reason_def label_defs prim_defs
      const_defs input_defs Let_def)

text \<open>
  Claim C8 as stated fails for save. A persistent running domain is saved and every
  step succeeds: the stopped event is queued while the thread still holds the object
  lock, and the unlock comes after it.
\<close>

theorem save_queues_event_before_unlock:
  "fst (qemuDomainSaveFlags env_ok False 0 vm_running) = 0
     \<and> trace (snd (qemuDomainSaveFlags env_ok False 0 vm_running)) =
         [VirDomainObjListFindByUUID True, EnsureACL True,
          QemuDomainObjBeginAsyncJob QEMU_ASYNC_JOB_SAVE True,
          QemuProcessStopCPUs VIR_DOMAIN_PAUSED_SAVE QEMU_ASYNC_JOB_SAVE True,
          QemuDomainSaveMemory True 0, QemuProcessStop VIR_DOMAIN_SHUTOFF_SAVED,
          VirDomainAuditStop, QemuDomainObjEndAsyncJob True,
          QemuDomainEventQueue (VIR_DOMAIN_EVENT_STOPPED, 4), VirObjectUnlock]
     \<and> \<not> events_outside_lock False (trace (snd (qemuDomainSaveFlags env_ok False 0 vm_running)))"
  by (simp add: qemuDomainSaveFlags_def qemuDomainSaveInternal_def save_after_pause_def
      save_commit_def label_defs prim_defs const_defs input_defs Let_def)

section \<open>Graceful shutdown: the agent first, then the monitor\<close>

text \<open>What the calls leave of the domain object.\<close>

lemma vm_virReportError [simp]: "vm (virReportError c m w) = vm w"
  by (simp add: virReportError_def)

lemma vm_qemuDomObjFromDomain [simp]: "vm (snd (qemuDomObjFromDomain e v)) = v"
  by (simp add: qemuDomObjFromDomain_def virReportError_def Let_def)

lemma vm_virDomainEnsureACL [simp]: "vm (snd (virDomainEnsureACL e w)) = vm w"
  by (simp add: virDomainEnsureACL_def emit_def)

lemma vm_qemuDomainAgentAvailable [simp]: "vm (snd (qemuDomainAgentAvailable e b w)) = vm w"
  by (simp add: qemuDomainAgentAvailable_def)

lemma vm_qemuDomainObjBeginJob [simp]:
  "vm (snd (qemuDomainObjBeginJob e j w)) =
     (if fst (envBeginJob e j (vm w))
      then (snd (envBeginJob e j (vm w)))
             \<lparr>priv_job := (priv_job (snd (envBeginJob e j (vm w))))\<lparr>job_active := j\<rparr>\<rparr>
      else snd (envBeginJob e j (vm w)))"
  by (simp add: qemuDomainObjBeginJob_def emit_def split_beta bool.case_eq_if)

lemma vm_shutdown_agent [simp]:
  "vm (snd (shutdown_agent e b w)) = snd (envAgentShutdown e (vm w))"
  by (simp add: shutdown_agent_def emit_def split_beta)

text \<open>
  Claim C4. A shutdown that holds its job on an active domain uses the agent iff the
  agent is available and either the agent flag is set or no flag is set and an agent
  channel is connected. The agent round-trip (enter the guard, one request, leave the
  guard) is complete before anything is sent to the monitor. The monitor's power-down
  is sent iff the agent was not used, or its request failed and either the ACPI flag is
  set or no flag is set; then the call returns the monitor's answer, otherwise the
  agent's. With only the agent flag set and the agent unavailable the call fails before
  it asks for the job and sends nothing to the monitor.
\<close>

theorem shutdown_agent_then_monitor:
  assumes "virCheckFlags (VIR_DOMAIN_SHUTDOWN_ACPI_POWER_BTN OR VIR_DOMAIN_SHUTDOWN_GUEST_AGENT) flags"
    and "envLookup e" and "envACL e"
    and "envBeginJob e QEMU_JOB_MODIFY v0 = (True, v1)" and "virDomainObjIsActive v1"
    and "useAgent =
          ((shutdown_agentRequested flags \<or> (flags = 0 \<and> priv_agent v0)) \<and> envAgentAvailable e)"
    and "ra = fst (envAgentShutdown e (v1\<lparr>priv_job := (priv_job v1)\<lparr>job_active := QEMU_JOB_MODIFY\<rparr>\<rparr>))"
    and "useMonitor = (\<not> useAgent \<or> (ra < 0 \<and> (shutdown_acpiRequested flags \<or> flags = 0)))"
    and "r = qemuDomainShutdownFlags e flags v0"
    and "pre = [VirDomainObjListFindByUUID True, EnsureACL True]"
    and "body =
          [QemuDomainObjBeginJob QEMU_JOB_MODIFY True]
          @ (if useAgent
             then [QemuDomainObjEnterAgent, QemuAgentShutdown (shutdown_isReboot v0) ra,
                   QemuDomainObjExitAgent]
             else [])
          @ (if useMonitor
             then [QemuDomainSetFakeReboot (shutdown_isReboot v0), QemuDomainObjEnterMonitor,
                   QemuMonitorSystemPowerdown (fst r), QemuDomainObjExitMonitor]
             else [])"
  shows "if shutdown_agentForced flags \<and> \<not> envAgentAvailable e
         then fst r = - 1 \<and> trace (snd r) = pre @ [VirObjectUnlock]
         else (trace (snd r) = pre @ body @ [QemuDomainObjEndJob True, VirObjectUnlock] \<or>
               trace (snd r) = pre @ body @ [QemuDomainObjEndJob False])
              \<and> (if useMonitor then True else fst r = ra)"
proof (cases "shutdown_agentForced flags \<and> \<not> envAgentAvailable e")
  case True
  then show ?thesis
    unfolding assms(9,10) using assms(1-3)
    by (simp add: qemuDomainShutdownFlags_def Let_def split_beta)
next
  case False
  define w3 where "w3 =
    \<lparr>vm = v1\<lparr>priv_job := (priv_job v1)\<lparr>job_active := QEMU_JOB_MODIFY\<rparr>\<rparr>,
     trace = pre @ [QemuDomainObjBeginJob QEMU_JOB_MODIFY True], lastError = None\<rparr>"
  have w3: "trace w3 = pre @ [QemuDomainObjBeginJob QEMU_JOB_MODIFY True]"
    "vm w3 = v1\<lparr>priv_job := (priv_job v1)\<lparr>job_active := QEMU_JOB_MODIFY\<rparr>\<rparr>"
    by (simp_all add: w3_def)
  have run: "r =
    (case (if useAgent then shutdown_agent e (shutdown_isReboot v0) w3 else (- 1, w3)) of
       (ret, w4) \<Rightarrow>
         if \<not> useAgent \<or> (ret < 0 \<and> (shutdown_acpiRequested flags \<or> flags = 0)) then
           (case shutdown_monitor e (shutdown_isReboot v0) w4 of (ret2, w5) \<Rightarrow>
              shutdown_endjob e ret2 w5)
         else shutdown_endjob e ret w4)"
    unfolding assms(9) w3_def assms(10) assms(6) using assms(1-5) False
    by (auto simp add: qemuDomainShutdownFlags_def qemuDomObjFromDomain_def
        virDomainEnsureACL_def qemuDomainAgentAvailable_def qemuDomainObjBeginJob_def emit_def
        Let_def virDomainObjIsActive_def split_beta)
  show ?thesis
  proof (cases useAgent)
    case agent: True
    have ra: "fst (shutdown_agent e (shutdown_isReboot v0) w3) = ra"
      by (simp add: w3 assms(7))
    show ?thesis
    proof (cases useMonitor)
      case True
      then have cond: "ra < 0 \<and> (shutdown_acpiRequested flags \<or> flags = 0)"
        using agent assms(8) by simp
      have r: "r = shutdown_endjob e
                 (fst (shutdown_monitor e (shutdown_isReboot v0)
                        (snd (shutdown_agent e (shutdown_isReboot v0) w3))))
                 (snd (shutdown_monitor e (shutdown_isReboot v0)
                        (snd (shutdown_agent e (shutdown_isReboot v0) w3))))"
        using run agent cond ra by (simp add: split_beta)
      have "fst r = fst (shutdown_monitor e (shutdown_isReboot v0)
                        (snd (shutdown_agent e (shutdown_isReboot v0) w3)))"
        by (simp add: r)
      then show ?thesis
        using False agent True by (simp add: r w3 assms(7,11))
    next
      case nomon: False
      then have cond: "\<not> (ra < 0 \<and> (shutdown_acpiRequested flags \<or> flags = 0))"
        using agent assms(8) by simp
      have r: "r = shutdown_endjob e ra (snd (shutdown_agent e (shutdown_isReboot v0) w3))"
        unfolding run using agent cond ra by (simp only: if_True if_False split_beta simp_thms)
      show ?thesis
        using False agent nomon by (simp add: r w3 assms(7,11))
    qed
  next
    case noagent: False
    then have mon: useMonitor using assms(8) by simp
    have r: "r = shutdown_endjob e
               (fst (shutdown_monitor e (shutdown_isReboot v0) w3))
               (snd (shutdown_monitor e (shutdown_isReboot v0) w3))"
      using run noagent by (simp add: split_beta)
    have "fst r = fst (shutdown_monitor e (shutdown_isReboot v0) w3)"
      by (simp add: r)
    then show ?thesis
      using False noagent mon by (simp add: r w3 assms(11))
  qed
qed

text \<open>Two runs on a running domain with a connected agent. Without flags, the agent's
  request fails and the monitor's power-down follows it. With only the agent flag and
  no agent available, the call fails and the monitor is not entered.\<close>

theorem shutdown_agent_then_monitor_witness:
  "fst (qemuDomainShutdownFlags env_agent_fails 0 vm_running) = 0
     \<and> trace (snd (qemuDomainShutdownFlags env_agent_fails 0 vm_running)) =
         [VirDomainObjListFindByUUID True, EnsureACL True, QemuDomainObjBeginJob QEMU_JOB_MODIFY True,
          QemuDomainObjEnterAgent, QemuAgentShutdown False (- 1), QemuDomainObjExitAgent,
          QemuDomainSetFakeReboot False, QemuDomainObjEnterMonitor,
          QemuMonitorSystemPowerdown 0, QemuDomainObjExitMonitor,
          QemuDomainObjEndJob True, VirObjectUnlock]
     \<and> fst (qemuDomainShutdownFlags env_no_agent VIR_DOMAIN_SHUTDOWN_GUEST_AGENT vm_running) = - 1
     \<and> trace (snd (qemuDomainShutdownFlags env_no_agent VIR_DOMAIN_SHUTDOWN_GUEST_AGENT vm_running)) =
         [VirDomainObjListFindByUUID True, EnsureACL True, VirObjectUnlock]"
proof -
  have flags: "virCheckFlags (VIR_DOMAIN_SHUTDOWN_ACPI_POWER_BTN OR VIR_DOMAIN_SHUTDOWN_GUEST_AGENT) 0"
      "virCheckFlags (VIR_DOMAIN_SHUTDOWN_ACPI_POWER_BTN OR VIR_DOMAIN_SHUTDOWN_GUEST_AGENT)
         VIR_DOMAIN_SHUTDOWN_GUEST_AGENT"
    by (simp_all add: virCheckFlags_def const_defs)
  have env: "envLookup env_agent_fails" "envACL env_agent_fails"
      "envBeginJob env_agent_fails QEMU_JOB_MODIFY vm_running = (True, vm_running)"
      "envLookup env_no_agent" "envACL env_no_agent"
      "envBeginJob env_no_agent QEMU_JOB_MODIFY vm_running = (True, vm_running)"
    by (simp_all add: input_defs)
  have dom: "virDomainObjIsActive vm_running"
    by (simp add: input_defs virDomainObjIsActive_def)
  show ?thesis
    using shutdown_agent_then_monitor [OF flags(1) env(1,2,3) dom refl refl refl refl refl refl]
      shutdown_agent_then_monitor [OF flags(2) env(4,5,6) dom refl refl refl refl refl refl]
    by (simp add: qemuDomainShutdownFlags_def shutdown_agent_def shutdown_monitor_def
        shutdown_agentRequested_def shutdown_acpiRequested_def shutdown_agentForced_def
        shutdown_isReboot_def label_defs prim_defs const_defs input_defs Let_def)
qed

section \<open>The job-progress queries\<close>

lemma vm_shutdown_cleanup [simp]: "vm (snd (shutdown_cleanup have_vm ret w)) = vm w"
  by (simp add: shutdown_cleanup_def virObjectUnlock_def emit_def)

lemma job_info_query:
  "list_all is_query_action (trace (snd (snd (qemuDomainGetJobInfo e v0 info0))))
     \<and> vm (snd (snd (qemuDomainGetJobInfo e v0 info0))) = v0"
  by (simp add: qemuDomainGetJobInfo_def Let_def split_beta bool.case_eq_if option.case_eq_if)

lemma job_stats_query:
  "list_all is_query_action (trace (snd (snd (qemuDomainGetJobStats e flags v0))))
     \<and> vm (snd (snd (qemuDomainGetJobStats e flags v0))) =
         (if virCheckFlags 0 flags \<and> envLookup e \<and> envACL e \<and> virDomainObjIsActive v0 \<and>
             job_reported v0 \<and> envTimeMillisNow e \<noteq> None
          then refreshElapsed (the (envTimeMillisNow e)) v0 else v0)"
  by (simp add: qemuDomainGetJobStats_def flagsRejected_def job_reported_def refreshElapsed_def
      Let_def split_beta bool.case_eq_if option.case_eq_if)

lemma job_query_none:
  assumes "envLookup e" and "envACL e" and "virDomainObjIsActive v0" and "\<not> job_reported v0"
  shows "fst (qemuDomainGetJobStats e 0 v0) = 0
     \<and> fst (snd (qemuDomainGetJobStats e 0 v0)) = Some (VIR_DOMAIN_JOB_NONE, [])
     \<and> fst (qemuDomainGetJobInfo e v0 info0) = 0
     \<and> fst (snd (qemuDomainGetJobInfo e v0 info0)) = zeroJobInfo"
  using assms
  by (auto simp add: qemuDomainGetJobStats_def qemuDomainGetJobInfo_def virCheckFlags_def
      job_reported_def zeroJobInfo_def Let_def split_beta bool.case_eq_if option.case_eq_if)

text \<open>
  Claim C7, as the code has it. Neither query begins a job, synchronous or async: each
  makes the locked lookup, the permission check, possibly an error report, and the
  unlock, and nothing else. With no async job to report on an active domain, both
  succeed with job type NONE and no parameters. Get-job-info leaves the domain object
  untouched. Get-job-stats leaves it untouched except for one field: when it reports a
  job it stores the refreshed elapsed time (now minus the start of the job) in the job's
  progress data.
\<close>

theorem job_query_takes_no_job:
  "list_all is_query_action (trace (snd (snd (qemuDomainGetJobInfo e v0 info0))))
     \<and> list_all is_query_action (trace (snd (snd (qemuDomainGetJobStats e flags v0))))
     \<and> vm (snd (snd (qemuDomainGetJobInfo e v0 info0))) = v0
     \<and> vm (snd (snd (qemuDomainGetJobStats e flags v0))) =
         (if virCheckFlags 0 flags \<and> envLookup e \<and> envACL e \<and> virDomainObjIsActive v0 \<and>
             job_reported v0 \<and> envTimeMillisNow e \<noteq> None
          then refreshElapsed (the (envTimeMillisNow e)) v0 else v0)
     \<and> (if envLookup e \<and> envACL e \<and> virDomainObjIsActive v0 \<and> \<not> job_reported v0
         then fst (qemuDomainGetJobStats e 0 v0) = 0
            \<and> fst (snd (qemuDomainGetJobStats e 0 v0)) = Some (VIR_DOMAIN_JOB_NONE, [])
            \<and> fst (qemuDomainGetJobInfo e v0 info0) = 0
            \<and> info_type (fst (snd (qemuDomainGetJobInfo e v0 info0))) = VIR_DOMAIN_JOB_NONE
         else True)"
  using job_info_query [of e v0 info0] job_stats_query [of e flags v0]
    job_query_none [of e v0 info0]
  by (simp add: zeroJobInfo_def)

theorem job_query_takes_no_job_witness:
  "trace (snd (snd (qemuDomainGetJobStats env_ok 0 vm_running))) =
         [VirDomainObjListFindByUUID True, EnsureACL True, VirObjectUnlock]
     \<and> fst (qemuDomainGetJobStats env_ok 0 vm_running) = 0
     \<and> fst (snd (qemuDomainGetJobStats env_ok 0 vm_running)) = Some (VIR_DOMAIN_JOB_NONE, [])
     \<and> vm (snd (snd (qemuDomainGetJobStats env_ok 0 vm_running))) = vm_running
     \<and> info_type (fst (snd (qemuDomainGetJobInfo env_ok vm_running zeroJobInfo))) = VIR_DOMAIN_JOB_NONE"
  using job_query_takes_no_job [of env_ok vm_running zeroJobInfo 0]
  by (simp add: qemuDomainGetJobStats_def job_reported_def virCheckFlags_def
      label_defs prim_defs input_defs Let_def)

text \<open>
  Claim C7 as stated fails in its last part. An outbound migration started at time 100
  runs and its stored elapsed time is 0; the query is made at time 150. Get-job-stats
  succeeds, reports the elapsed time 50, and the elapsed time stored in the job's
  progress data is 50 afterwards: the query has written to the data it reports.
\<close>

theorem job_stats_writes_elapsed_time:
  "timeElapsed (job_info (priv_job (vm_async QEMU_ASYNC_JOB_MIGRATION_OUT))) = 0
     \<and> fst (qemuDomainGetJobStats env_ok 0 (vm_async QEMU_ASYNC_JOB_MIGRATION_OUT)) = 0
     \<and> timeElapsed (job_info (priv_job (vm (snd (snd
           (qemuDomainGetJobStats env_ok 0 (vm_async QEMU_ASYNC_JOB_MIGRATION_OUT))))))) = 50
     \<and> job_info (priv_job (vm (snd (snd
           (qemuDomainGetJobStats env_ok 0 (vm_async QEMU_ASYNC_JOB_MIGRATION_OUT))))))
         \<noteq> job_info (priv_job (vm_async QEMU_ASYNC_JOB_MIGRATION_OUT))"
  by (simp add: qemuDomainGetJobStats_def jobStatsParams_def addIf_def
      virTypedParamsAddULLong_def label_defs prim_defs input_defs Let_def)

section \<open>Save: the rollback after a failure\<close>

lemma vm_qemuProcessStartCPUs [simp]:
  "vm (snd (qemuProcessStartCPUs e r a w)) =
     (if fst (envStartCPUs e (vm w))
      then (snd (envStartCPUs e (vm w)))\<lparr>vm_state := VIR_DOMAIN_RUNNING, vm_reason := r\<rparr>
      else snd (envStartCPUs e (vm w)))"
  by (simp add: qemuProcessStartCPUs_def emit_def split_beta bool.case_eq_if)

lemma vm_qemuDomainObjEndAsyncJob [simp]:
  "vm_state (vm (snd (qemuDomainObjEndAsyncJob e w))) = vm_state (vm w)"
  "vm_reason (vm (snd (qemuDomainObjEndAsyncJob e w))) = vm_reason (vm w)"
  by (simp_all add: qemuDomainObjEndAsyncJob_def emit_def Let_def)

lemma vm_save_cleanup [simp]: "vm (snd (save_cleanup have_vm event ret w)) = vm w"
  by (simp add: save_cleanup_def Let_def virObjectUnlock_def qemuDomainEventQueue_def emit_def
      split: option.splits)






end
